theory Spec2Isabelle
  imports Complex_Main "HOL-Library.Sublist" "HOL-Library.Log_Nat"
begin

section \<open>Strings and numbers of the host language\<close>

text \<open>
  Strings are character lists. \<open>String.prototype.includes\<close> is the substring test and
  \<open>String.prototype.split\<close> with a one-character separator cuts at every occurrence of
  the separator, keeping empty fields: the empty string splits into one empty field.
\<close>

definition nl :: string where
  "nl = [CHR 0x0A]"

definition js_includes :: "string \<Rightarrow> string \<Rightarrow> bool" where
  "js_includes s pat = sublist pat s"

fun split_on :: "char \<Rightarrow> string \<Rightarrow> string list" where
  "split_on c [] = [[]]"
| "split_on c (x # xs) =
     (if x = c then [] # split_on c xs
      else (case split_on c xs of [] \<Rightarrow> [[x]] | f # fs \<Rightarrow> (x # f) # fs))"

text \<open>Decimal rendering of a natural number, as a template literal renders an index.\<close>

function show_nat :: "nat \<Rightarrow> string" where
  "show_nat n =
     (if n < 10 then [''0123456789'' ! n]
      else show_nat (n div 10) @ [''0123456789'' ! (n mod 10)])"
  by pat_completeness auto
termination
  by (relation "measure id") auto

declare show_nat.simps [simp del]

section \<open>Data model\<close>

text \<open>
  The interfaces of \<open>types.ts\<close> are erased at run time, so the records are polymorphic in
  the types of their fields: the expansion of the AI response fills them with whatever
  JSON values the response holds, the exports read them at the declared types
  (a number for the identifier, strings for the rest).
\<close>

record ('i, 's) Subtitle =
  id' :: 'i
  startTime :: 's
  endTime :: 's
  textOriginal :: 's
  textVietnamese :: 's

record 's Note =
  timestamp :: 's
  title :: 's
  content :: 's

record ('i, 's) Flashcard =
  card_id :: 'i
  card_term :: 's
  card_definition :: 's
  card_context :: 's

record ('i, 's) ProcessedData =
  subtitles :: "('i, 's) Subtitle list"
  notes' :: "'s Note list"
  flashcards :: "('s, 's) Flashcard list"

record file_info =
  file_name :: string
  file_type :: string
  file_size :: nat

section \<open>Subtitle export (Dashboard, exportSRT)\<close>

datatype srt_type = bilingual | original | vietnamese

fun srt_type_name :: "srt_type \<Rightarrow> string" where
  "srt_type_name bilingual = ''bilingual''"
| "srt_type_name original = ''original''"
| "srt_type_name vietnamese = ''vietnamese''"

text \<open>
  The body of the \<open>forEach\<close> callback: the text appended to \<open>content\<close> for the subtitle
  at position \<open>index\<close>.
\<close>

definition srt_entry :: "srt_type \<Rightarrow> nat \<Rightarrow> ('i, string) Subtitle \<Rightarrow> string" where
  "srt_entry type index sub =
     (let start = (if js_includes (startTime sub) '','' then startTime sub
                   else startTime sub @ '',000'');
          end' = (if js_includes (endTime sub) '','' then endTime sub
                  else endTime sub @ '',000'')
      in show_nat (index + 1) @ nl
         @ (start @ '' --> '' @ end' @ nl)
         @ (if type = bilingual then (textOriginal sub @ nl) @ (textVietnamese sub @ nl @ nl)
            else if type = original then textOriginal sub @ nl @ nl
            else textVietnamese sub @ nl @ nl))"

record download =
  download_name :: string
  download_text :: string

definition base_name :: "string \<Rightarrow> string" where
  "base_name n = (case split_on CHR ''.'' n of [] \<Rightarrow> [] | f # fs \<Rightarrow> f)"

definition exportSRT :: "srt_type \<Rightarrow> file_info \<Rightarrow> ('i, string) Subtitle list \<Rightarrow> download" where
  "exportSRT type f subs =
     \<lparr>download_name = base_name (file_name f) @ ''_'' @ srt_type_name type @ ''.srt'',
      download_text = foldl (\<lambda>content (index, sub). content @ srt_entry type index sub) []
                        (enumerate 0 subs)\<rparr>"

section \<open>Timestamp parsing (Dashboard, parseTime and handleNoteClick)\<close>

text \<open>
  \<open>Number\<close> is the platform's conversion of a string to a number; it is a parameter of
  the model, and so is the number type, of which only zero, the numerals, addition and
  multiplication are used (no law of arithmetic is assumed of them).
\<close>

definition parseTime :: "(string \<Rightarrow> 'n) \<Rightarrow> string \<Rightarrow> 'n::{zero,times,numeral}" where
  "parseTime Number timeStr =
     (let parts = map Number (split_on CHR '':'' timeStr)
      in if length parts = 3 then parts ! 0 * 3600 + parts ! 1 * 60 + parts ! 2
         else if length parts = 2 then parts ! 0 * 60 + parts ! 1
         else 0)"

text \<open>
  \<open>handleNoteClick\<close> asks the video player, when it is mounted, to seek. The newer
  Dashboard calls \<open>parseTime\<close>; the older one computes the seconds in place.
\<close>

datatype 'n player_call = seekTo 'n

definition handleNoteClick :: "(string \<Rightarrow> 'n) \<Rightarrow> bool \<Rightarrow> string \<Rightarrow> ('n::{zero,times,numeral}) player_call option" where
  "handleNoteClick Number mounted timestampStr =
     (let seconds = parseTime Number timestampStr
      in if mounted then Some (seekTo seconds) else None)"

definition handleNoteClick_inline :: "(string \<Rightarrow> 'n) \<Rightarrow> bool \<Rightarrow> string \<Rightarrow> ('n::{zero,times,numeral}) player_call option" where
  "handleNoteClick_inline Number mounted timestampStr =
     (let parts = map Number (split_on CHR '':'' timestampStr);
          seconds = (if length parts = 3 then parts ! 0 * 3600 + parts ! 1 * 60 + parts ! 2
                     else if length parts = 2 then parts ! 0 * 60 + parts ! 1
                     else 0)
      in if mounted then Some (seekTo seconds) else None)"

section \<open>Errors, promises and cancellation (geminiService, runWithCancellation)\<close>

text \<open>
  A thrown value carries the name of its constructor and its \<open>message\<close> property, which
  may be missing. \<open>new Error(m)\<close> is \<open>Error m\<close>.
\<close>

datatype js_error = JsError (error_name: string) (message: "string option")

definition Error :: "string \<Rightarrow> js_error" where
  "Error m = JsError ''Error'' (Some m)"

definition cancelled :: js_error where
  "cancelled = Error ''Processing cancelled by user.''"

text \<open>
  A string that may be \<open>undefined\<close>; \<open>!x\<close> holds of \<open>undefined\<close> and of the empty string.
\<close>

fun falsy :: "string option \<Rightarrow> bool" where
  "falsy None = True"
| "falsy (Some s) = (s = [])"

fun or_empty :: "string option \<Rightarrow> string" where
  "or_empty None = []"
| "or_empty (Some s) = s"

text \<open>
  The optional abort signal: \<open>None\<close> when the caller passed none, otherwise its
  \<open>aborted\<close> flag at the time of the call. The event loop runs one task at a time, so an
  abort is dispatched only while the function is suspended at an \<open>await\<close>; the outcome of
  an awaited operation therefore says whether the abort event fires before the operation
  settles (\<open>abort_first\<close>) and how the operation settles otherwise. The status callback is
  taken to report only: it does not abort the signal itself.
\<close>

type_synonym signal = "bool option"

datatype 'a settled = Resolved 'a | Rejected js_error

datatype 'a pending = Pending (abort_first: bool) (settles: "'a settled")

fun settle :: "'a settled \<Rightarrow> js_error + 'a" where
  "settle (Resolved v) = Inr v"
| "settle (Rejected e) = Inl e"

fun runWithCancellation :: "'a pending \<Rightarrow> signal \<Rightarrow> js_error + 'a" where
  "runWithCancellation p None = settle (settles p)"
| "runWithCancellation p (Some aborted) =
     (if aborted then Inl cancelled
      else if abort_first p then Inl cancelled
      else settle (settles p))"

section \<open>The remote service and the calls made to it\<close>

datatype media_part = inlineData string "string option" | fileData string string

record prompt =
  langInstruction :: string
  notes_clause :: string
  cards_clause :: string

text \<open>
  The calls that leave the function, in the order they are made: status reports to
  the callback, the file read, the upload, the status polls with their timers, and the
  generation request.
\<close>

datatype call =
    onStatusUpdate string nat
  | readAsDataURL
  | files_upload string string
  | files_get string
  | setTimeout nat
  | generateContent media_part prompt

record upload_result =
  up_uri :: "string option"
  up_name :: "string option"

text \<open>
  A parsed JSON value, with \<open>undefined\<close> for the value of a missing property. An object
  is the list of its own properties (the keys of a parsed object are distinct). The
  numbers of a response are identifiers and are only copied and tested for zero.
\<close>

datatype jsval =
    JUndefined
  | JNull
  | JBool bool
  | JNum int
  | JStr string
  | JArr "jsval list"
  | JObj "(string \<times> jsval) list"

text \<open>
  What the platform and the service answer. The file reader settles the promise of
  \<open>fileToGenerativePart\<close> through the first of its callbacks to run: \<open>loadend\<close> with a
  result (a data URL) or without one, or \<open>error\<close>; \<open>read_abort_first\<close> says that the
  signal fires before them, while the file is being read. \<open>JSON_parse\<close> is the platform's
  parser,
  \<open>Math_random k\<close> the text of the \<open>k\<close>-th random number drawn, and \<open>TypeError\<close> the
  error the engine throws on a read of the given property that cannot be done.
\<close>

datatype reader_event = loadend "string option" | reader_error

record world =
  api_key :: "string option"
  read_abort_first :: bool
  file_reader :: reader_event
  upload_answer :: "upload_result pending"
  poll_answer :: "nat \<Rightarrow> string option pending"
  delay_abort :: "nat \<Rightarrow> bool"
  generate_answer :: "string option pending"
  JSON_parse :: "string \<Rightarrow> js_error + jsval"
  Math_random :: "nat \<Rightarrow> string"
  TypeError :: "string \<Rightarrow> js_error"

section \<open>Reading the file (geminiService, fileToGenerativePart)\<close>

text \<open>
  When the signal fires during the read, the abort listener first calls \<open>reader.abort()\<close>,
  which fires \<open>loadend\<close> with no result at once: the promise is rejected by the
  \<open>loadend\<close> handler, and the rejection with the cancellation error that follows in the
  listener has no effect.
\<close>

definition fileToGenerativePart :: "world \<Rightarrow> signal \<Rightarrow> js_error + string option" where
  "fileToGenerativePart w sig =
     (if sig \<noteq> None \<and> read_abort_first w then Inl (Error ''Failed to read file'')
      else case file_reader w of
             reader_error \<Rightarrow> Inl (Error ''Error reading file'')
           | loadend result \<Rightarrow>
               (if \<not> falsy result
                then (case split_on CHR '','' (or_empty result) of
                        f # base64Content # rest \<Rightarrow> Inr (Some base64Content)
                      | _ \<Rightarrow> Inr None)
                else Inl (Error ''Failed to read file'')))"

section \<open>Polling the uploaded file (geminiService, waitForFileActive)\<close>

definition maxAttempts :: nat where
  "maxAttempts = 120"

definition delayMs :: nat where
  "delayMs = 5000"

record poll_run =
  poll_result :: "js_error + unit"
  poll_index :: nat
  poll_calls :: "call list"

text \<open>
  The \<open>for\<close> loop from index \<open>i\<close>, with the calls made so far. The progress reported is
  \<open>40 + Math.floor((i / maxAttempts) * 35)\<close>; for the indices below \<open>maxAttempts\<close> the
  floating-point product has the floor of the exact quotient \<open>35 i / 120\<close>, which is
  written here.
\<close>

function waitLoop :: "world \<Rightarrow> string \<Rightarrow> bool \<Rightarrow> signal \<Rightarrow> nat \<Rightarrow> call list \<Rightarrow> poll_run" where
  "waitLoop w fileName cb sig i calls =
     (if i < maxAttempts then
        if sig = Some True
        then \<lparr>poll_result = Inl cancelled, poll_index = i, poll_calls = calls\<rparr>
        else
          (case runWithCancellation (poll_answer w i) sig of
             Inl e \<Rightarrow>
               \<lparr>poll_result = Inl e, poll_index = i, poll_calls = calls @ [files_get fileName]\<rparr>
           | Inr state \<Rightarrow>
               if state = Some ''ACTIVE''
               then \<lparr>poll_result = Inr (), poll_index = i,
                     poll_calls = calls @ [files_get fileName]\<rparr>
               else if state = Some ''FAILED''
               then \<lparr>poll_result = Inl (Error ''File processing failed on Gemini server.''),
                     poll_index = i, poll_calls = calls @ [files_get fileName]\<rparr>
               else
                 (let progress = 40 + (i * 35) div maxAttempts;
                      report = (if cb then [onStatusUpdate
                                  (''Google is processing video... (State: ''
                                     @ (case state of None \<Rightarrow> ''undefined'' | Some s \<Rightarrow> s) @ '')'')
                                  progress]
                                else []);
                      calls' = calls @ [files_get fileName] @ report @ [setTimeout delayMs]
                  in if sig \<noteq> None \<and> delay_abort w i
                     then \<lparr>poll_result = Inl cancelled, poll_index = i, poll_calls = calls'\<rparr>
                     else waitLoop w fileName cb sig (i + 1) calls'))
      else \<lparr>poll_result = Inl (Error ''File upload timed out.''), poll_index = i,
            poll_calls = calls\<rparr>)"
  by pat_completeness auto
termination
  by (relation "measure (\<lambda>(w, fileName, cb, sig, i, calls). maxAttempts - i)") auto

declare waitLoop.simps [simp del]

definition waitForFileActive :: "world \<Rightarrow> string \<Rightarrow> bool \<Rightarrow> signal \<Rightarrow> poll_run" where
  "waitForFileActive w fileName cb sig = waitLoop w fileName cb sig 0 []"

section \<open>Expanding the compact response (geminiService, processMediaWithGemini)\<close>

text \<open>
  Reading a property of \<open>undefined\<close> or \<open>null\<close> throws; of an object it gives the value
  of the property or \<open>undefined\<close>; the other values have none of the properties read here.
\<close>

fun nullish :: "jsval \<Rightarrow> bool" where
  "nullish JUndefined = True"
| "nullish JNull = True"
| "nullish v = False"

fun truthy :: "jsval \<Rightarrow> bool" where
  "truthy JUndefined = False"
| "truthy JNull = False"
| "truthy (JBool b) = b"
| "truthy (JNum n) = (n \<noteq> 0)"
| "truthy (JStr s) = (s \<noteq> [])"
| "truthy (JArr xs) = True"
| "truthy (JObj kvs) = True"

fun get_prop :: "jsval \<Rightarrow> string \<Rightarrow> jsval" where
  "get_prop (JObj kvs) k = (case map_of kvs k of None \<Rightarrow> JUndefined | Some v \<Rightarrow> v)"
| "get_prop v k = JUndefined"

text \<open>\<open>xs.map(f)\<close>: only an array has the method.\<close>

fun array_elems :: "(string \<Rightarrow> js_error) \<Rightarrow> jsval \<Rightarrow> js_error + jsval list" where
  "array_elems te (JArr xs) = Inr xs"
| "array_elems te v = Inl (te ''map'')"

text \<open>
  Mapping a callback that starts by reading property \<open>k\<close> of the element: the read
  throws on a \<open>null\<close> element, and the other reads of the callback then cannot.
\<close>

fun map_elems :: "(string \<Rightarrow> js_error) \<Rightarrow> string \<Rightarrow> (jsval \<Rightarrow> 'a) \<Rightarrow> jsval list \<Rightarrow> js_error + 'a list" where
  "map_elems te k f [] = Inr []"
| "map_elems te k f (x # xs) =
     (if nullish x then Inl (te k)
      else case map_elems te k f xs of Inl e \<Rightarrow> Inl e | Inr ys \<Rightarrow> Inr (f x # ys))"

definition to_subtitle :: "jsval \<Rightarrow> (jsval, jsval) Subtitle" where
  "to_subtitle s =
     \<lparr>id' = get_prop s ''i'', startTime = get_prop s ''s'', endTime = get_prop s ''e'',
      textOriginal = get_prop s ''en'', textVietnamese = get_prop s ''vi''\<rparr>"

definition to_note :: "jsval \<Rightarrow> jsval Note" where
  "to_note n =
     \<lparr>timestamp = get_prop n ''ts'', title = get_prop n ''ti'', content = get_prop n ''co''\<rparr>"

text \<open>
  The flashcards draw a random number for each element whose \<open>id\<close> is falsy; \<open>k\<close> counts
  the numbers drawn so far.
\<close>

fun map_cards :: "(string \<Rightarrow> js_error) \<Rightarrow> (nat \<Rightarrow> string) \<Rightarrow> nat \<Rightarrow> jsval list \<Rightarrow> js_error + (jsval, jsval) Flashcard list" where
  "map_cards te rnd k [] = Inr []"
| "map_cards te rnd k (c # cs) =
     (if nullish c then Inl (te ''id'')
      else
        (let drawn = \<not> truthy (get_prop c ''id'');
             card = \<lparr>card_id = (if drawn then JStr (rnd k) else get_prop c ''id''),
                     card_term = get_prop c ''t'', card_definition = get_prop c ''d'',
                     card_context = get_prop c ''c''\<rparr>
         in case map_cards te rnd (if drawn then k + 1 else k) cs of
              Inl e \<Rightarrow> Inl e
            | Inr ys \<Rightarrow> Inr (card # ys)))"

definition expand :: "(string \<Rightarrow> js_error) \<Rightarrow> (nat \<Rightarrow> string) \<Rightarrow> jsval \<Rightarrow> js_error + (jsval, jsval) ProcessedData" where
  "expand te rnd rawData =
     (if nullish rawData then Inl (te ''subs'')
      else
       (case array_elems te (get_prop rawData ''subs'') of Inl e \<Rightarrow> Inl e | Inr ss \<Rightarrow>
       (case map_elems te ''i'' to_subtitle ss of Inl e \<Rightarrow> Inl e | Inr subs \<Rightarrow>
       (case array_elems te (get_prop rawData ''nts'') of Inl e \<Rightarrow> Inl e | Inr ns \<Rightarrow>
       (case map_elems te ''ts'' to_note ns of Inl e \<Rightarrow> Inl e | Inr nts \<Rightarrow>
       (case array_elems te (get_prop rawData ''cards'') of Inl e \<Rightarrow> Inl e | Inr cs \<Rightarrow>
       (case map_cards te rnd 0 cs of Inl e \<Rightarrow> Inl e | Inr cards \<Rightarrow>
          Inr \<lparr>subtitles = subs, notes' = nts, flashcards = cards\<rparr>)))))))"

section \<open>The orchestrator (geminiService, processMediaWithGemini)\<close>

record options =
  originalLanguage :: string
  generateNotes :: bool
  generateFlashcards :: bool

definition INLINE_SIZE_LIMIT :: nat where
  "INLINE_SIZE_LIMIT = 20 * 1024 * 1024"

definition promptText :: "options \<Rightarrow> prompt" where
  "promptText opts =
     \<lparr>langInstruction =
        (if originalLanguage opts = ''Auto Detect'' then ''Detect language automatically.''
         else ''Original language is '' @ originalLanguage opts @ ''.''),
      notes_clause =
        (if generateNotes opts then ''Required, approx 1 note every 2-3 mins''
         else ''Return empty array''),
      cards_clause =
        (if generateFlashcards opts then ''Required, max 10 key terms''
         else ''Return empty array'')\<rparr>"

definition status :: "bool \<Rightarrow> string \<Rightarrow> nat \<Rightarrow> call list" where
  "status cb msg progress = (if cb then [onStatusUpdate msg progress] else [])"

text \<open>Step 2 of the \<open>try\<close> block: the generation request and the expansion of its answer.\<close>

definition generate_step :: "world \<Rightarrow> options \<Rightarrow> bool \<Rightarrow> signal \<Rightarrow> media_part \<Rightarrow> call list \<Rightarrow> (js_error + (jsval, jsval) ProcessedData) \<times> call list" where
  "generate_step w opts cb sig mediaPart calls =
     (let calls' = calls
            @ status cb ''AI is analyzing FULL content (Deep Processing)...'' 80
            @ [generateContent mediaPart (promptText opts)]
      in case runWithCancellation (generate_answer w) sig of
           Inl e \<Rightarrow> (Inl e, calls')
         | Inr response_text \<Rightarrow>
             (if falsy response_text then (Inl (Error ''No response from AI''), calls')
              else (case JSON_parse w (or_empty response_text) of
                      Inl e \<Rightarrow> (Inl e, calls')
                    | Inr rawData \<Rightarrow> (expand (TypeError w) (Math_random w) rawData, calls'))))"

text \<open>The \<open>try\<close> block.\<close>

definition process_try :: "world \<Rightarrow> file_info \<Rightarrow> options \<Rightarrow> bool \<Rightarrow> signal \<Rightarrow> (js_error + (jsval, jsval) ProcessedData) \<times> call list" where
  "process_try w f opts cb sig =
     (if sig = Some True then (Inl cancelled, [])
      else if falsy (api_key w) then (Inl (Error ''API Key is missing.''), [])
      else if file_size f < INLINE_SIZE_LIMIT then
        (let calls = status cb ''Optimizing small file...'' 30 @ [readAsDataURL]
         in case fileToGenerativePart w sig of
              Inl e \<Rightarrow> (Inl e, calls)
            | Inr base64Data \<Rightarrow>
                generate_step w opts cb sig (inlineData (file_type f) base64Data) calls)
      else
        (let calls = status cb ''Uploading large file to Gemini...'' 10
               @ [files_upload (file_name f) (file_type f)]
         in case runWithCancellation (upload_answer w) sig of
              Inl e \<Rightarrow> (Inl e, calls)
            | Inr uploadResult \<Rightarrow>
                if falsy (up_uri uploadResult) \<or> falsy (up_name uploadResult)
                then (Inl (Error ''Upload failed.''), calls)
                else
                  (let calls' = calls @ status cb ''File uploaded. Waiting for processing...'' 40;
                       run = waitForFileActive w (or_empty (up_name uploadResult)) cb sig
                   in case poll_result run of
                        Inl e \<Rightarrow> (Inl e, calls' @ poll_calls run)
                      | Inr u \<Rightarrow>
                          generate_step w opts cb sig
                            (fileData (or_empty (up_uri uploadResult)) (file_type f))
                            (calls' @ poll_calls run))))"

text \<open>The \<open>catch\<close> block: what is thrown for the error \<open>error\<close> caught.\<close>

definition rethrow :: "js_error \<Rightarrow> js_error" where
  "rethrow error =
     (if message error = Some ''Processing cancelled by user.'' then error
      else
        (let msg = or_empty (message error)
         in if js_includes msg ''429'' then Error ''API Quota Exceeded. Please try again later.''
            else if js_includes msg ''503'' then Error ''Server overloaded. Try again shortly.''
            else if js_includes msg ''SAFETY'' then Error ''Content blocked by safety filters.''
            else if js_includes msg ''400'' \<and> js_includes msg ''context''
            then Error ''File too long (Context Exceeded).''
            else if js_includes msg ''403'' then Error ''Invalid API Key.''
            else error))"

definition processMediaWithGemini :: "world \<Rightarrow> file_info \<Rightarrow> options \<Rightarrow> bool \<Rightarrow> signal \<Rightarrow> (js_error + (jsval, jsval) ProcessedData) \<times> call list" where
  "processMediaWithGemini w f opts cb sig =
     (case process_try w f opts cb sig of
        (Inl error, calls) \<Rightarrow> (Inl (rethrow error), calls)
      | (Inr processedData, calls) \<Rightarrow> (Inr processedData, calls))"

section \<open>Speech for one line (geminiService, getTTSAudio)\<close>

text \<open>
  The platform of the dubbing export: the conversion \<open>Number\<close>, the credential, the
  answer of the service to the \<open>k\<close>-th speech request (the audio data of the first
  candidate, when there is one), the decoding of that data into an audio buffer, and the
  Web Audio interface, which refuses some arguments: \<open>offline_ctx_error\<close> gives the error
  the \<open>OfflineAudioContext\<close> constructor throws for a length it refuses (a length that is
  not a number, for one), \<open>start_error\<close> the error \<open>start\<close> throws for an offset it refuses
  (one that is negative or not a number), and \<open>rendering_error\<close> the error
  \<open>startRendering\<close> rejects with, when it does.
\<close>

record ('n, 'b) dub_world =
  Number :: "string \<Rightarrow> 'n"
  tts_key :: "string option"
  tts_answer :: "nat \<Rightarrow> string \<Rightarrow> string \<Rightarrow> string option settled"
  decode_pcm :: "string \<Rightarrow> js_error + 'b"
  offline_ctx_error :: "'n \<Rightarrow> js_error option"
  start_error :: "'n \<Rightarrow> js_error option"
  rendering_error :: "js_error option"

definition getTTSAudio :: "('n, 'b) dub_world \<Rightarrow> nat \<Rightarrow> string \<Rightarrow> string \<Rightarrow> js_error + 'b" where
  "getTTSAudio w k text' voiceName =
     (if falsy (tts_key w) then Inl (Error ''API Key missing'')
      else case tts_answer w k text' voiceName of
             Rejected e \<Rightarrow> Inl e
           | Resolved base64Audio \<Rightarrow>
               if falsy base64Audio then Inl (Error ''No audio data generated'')
               else decode_pcm w (or_empty base64Audio))"

section \<open>The progress shown (Dashboard, setDubProgress)\<close>

text \<open>
  The progress reported after a line is \<open>Math.round((processedCount / length) * 100)\<close>,
  computed in double precision. \<open>to_double\<close> rounds a rational to the nearest double,
  ties to even (53 significant bits; the quotients and products here are far from the
  ends of the exponent range); the two counts are integers that doubles hold exactly,
  and the length is positive whenever a report is made. \<open>Math.round\<close> gives the integer
  nearest to its argument, the upper one at a tie.
\<close>

definition pow2 :: "int \<Rightarrow> rat" where
  "pow2 e = (if 0 \<le> e then 2 ^ nat e else 1 / 2 ^ nat (- e))"

definition binade :: "rat \<Rightarrow> int" where
  "binade x =
     (case quotient_of x of (a, b) \<Rightarrow>
        (let e = bitlen a - bitlen b in if pow2 e \<le> x then e else e - 1))"

definition round_even :: "rat \<Rightarrow> int" where
  "round_even x =
     (let f = \<lfloor>x\<rfloor>; d = x - of_int f
      in if d < 1 / 2 then f else if 1 / 2 < d then f + 1 else if even f then f else f + 1)"

definition to_double :: "rat \<Rightarrow> rat" where
  "to_double x =
     (if x = 0 then 0
      else (let q = pow2 (binade x - 52) in q * of_int (round_even (x / q))))"

definition percent :: "nat \<times> nat \<Rightarrow> nat" where
  "percent r =
     (case r of (k, n) \<Rightarrow>
        nat \<lfloor>to_double (to_double (of_nat k / of_nat n) * 100) + 1 / 2\<rfloor>)"

section \<open>The dubbed audio export (Dashboard, handleDownloadDubbedAudio)\<close>

text \<open>
  The state of the loop over the subtitles: the sources started in the offline context
  (offset and buffer), the identifiers of the lines warned about, the count of lines
  processed, and the progress reported after each line.
\<close>

record ('i, 'n, 'b) dub_state =
  scheduled :: "('n \<times> 'b) list"
  warned :: "'i list"
  processedCount :: nat
  reports :: "nat list"

definition dub_start :: "('i, 'n, 'b) dub_state" where
  "dub_start = \<lparr>scheduled = [], warned = [], processedCount = 0, reports = []\<rparr>"

text \<open>
  The body of the loop for the line at position \<open>k\<close> of \<open>len\<close>. The inner \<open>try\<close> holds the
  speech request and the call of \<open>start\<close>: when either throws, the line is warned about
  and no source is started for it.
\<close>

definition dub_line :: "('n, 'b) dub_world \<Rightarrow> nat \<Rightarrow> nat \<Rightarrow> ('i, string) Subtitle \<Rightarrow> ('i, 'n, 'b) dub_state \<Rightarrow> ('i, ('n::{zero,times,numeral}), 'b) dub_state" where
  "dub_line w len k sub st =
     (let startTime' = parseTime (Number w) (startTime sub);
          st' = (case getTTSAudio w k (textVietnamese sub) ''Kore'' of
                   Inl e \<Rightarrow> st\<lparr>warned := warned st @ [id' sub]\<rparr>
                 | Inr buffer \<Rightarrow>
                     (case start_error w startTime' of
                        Some e \<Rightarrow> st\<lparr>warned := warned st @ [id' sub]\<rparr>
                      | None \<Rightarrow> st\<lparr>scheduled := scheduled st @ [(startTime', buffer)]\<rparr>));
          count = processedCount st' + 1
      in st'\<lparr>processedCount := count, reports := reports st' @ [percent (count, len)]\<rparr>)"

fun dub_loop :: "('n, 'b) dub_world \<Rightarrow> nat \<Rightarrow> nat \<Rightarrow> ('i, string) Subtitle list \<Rightarrow> ('i, 'n, 'b) dub_state \<Rightarrow> ('i, ('n::{zero,times,numeral}), 'b) dub_state" where
  "dub_loop w len k [] st = st"
| "dub_loop w len k (sub # subs) st = dub_loop w len (k + 1) subs (dub_line w len k sub st)"

record 'n ctx_args =
  numberOfChannels :: nat
  ctx_length :: 'n
  sampleRate :: 'n

text \<open>
  The buffer \<open>startRendering\<close> resolves with has the channels, the length and the sample
  rate of its context, and mixes the sources started in it.
\<close>

record ('n, 'b) audio_buffer =
  buf_channels :: nat
  buf_length :: 'n
  buf_sampleRate :: 'n
  buf_sources :: "('n \<times> 'b) list"

record ('n, 'b) wav =
  wav_channels :: nat
  wav_sampleRate :: 'n
  wav_frames :: 'n
  wav_sources :: "('n \<times> 'b) list"

text \<open>
  Modelled from the spec: \<open>audioBufferToWav\<close>, which the Dashboard imports from
  geminiService and which is not among the sources. The spec has it encode the final
  mixed buffer to a standard uncompressed PCM container, mono, at the fixed sample rate:
  the container keeps the channels, the sample rate and every frame of the buffer.
\<close>

definition audioBufferToWav :: "('n, 'b) audio_buffer \<Rightarrow> ('n, 'b) wav" where
  "audioBufferToWav b =
     \<lparr>wav_channels = buf_channels b, wav_sampleRate = buf_sampleRate b,
      wav_frames = buf_length b, wav_sources = buf_sources b\<rparr>"

text \<open>
  A run of the handler: the arguments it gives to the \<open>OfflineAudioContext\<close>
  constructor, the context constructed (none when the constructor throws), the state
  its loop ends in, and either the error its outer \<open>catch\<close> block reports or the file it
  offers for download. When the constructor throws, the loop is not entered. The
  \<open>finally\<close> block then resets the progress shown to 0. The handler returns at once when
  a generation is in progress.
\<close>

record ('i, 'n, 'b) dub_run =
  ctx_request :: "'n ctx_args"
  offline_ctx :: "'n ctx_args option"
  dub_lines :: "('i, 'n, 'b) dub_state"
  dub_result :: "js_error + string \<times> ('n, 'b) wav"

definition handleDownloadDubbedAudio :: "('n, 'b) dub_world \<Rightarrow> bool \<Rightarrow> file_info \<Rightarrow> ('i, string) Subtitle list \<Rightarrow> ('i, ('n::{zero,times,numeral}), 'b) dub_run option" where
  "handleDownloadDubbedAudio w isGeneratingDub f subs =
     (if isGeneratingDub then None
      else
        (let totalDuration = (if length subs > 0
                              then parseTime (Number w) (endTime (last subs)) + 10 else 60);
             rate = 24000;
             args = \<lparr>numberOfChannels = 1, ctx_length = rate * totalDuration,
                     sampleRate = rate\<rparr>
         in case offline_ctx_error w (ctx_length args) of
              Some e \<Rightarrow>
                Some \<lparr>ctx_request = args, offline_ctx = None, dub_lines = dub_start,
                      dub_result = Inl e\<rparr>
            | None \<Rightarrow>
                (let st = dub_loop w (length subs) 0 subs dub_start
                 in case rendering_error w of
                      Some e \<Rightarrow>
                        Some \<lparr>ctx_request = args, offline_ctx = Some args, dub_lines = st,
                              dub_result = Inl e\<rparr>
                    | None \<Rightarrow>
                        Some \<lparr>ctx_request = args, offline_ctx = Some args, dub_lines = st,
                              dub_result =
                                Inr (base_name (file_name f) @ ''_dubbed_audio.wav'',
                                     audioBufferToWav
                                       \<lparr>buf_channels = numberOfChannels args,
                                        buf_length = ctx_length args,
                                        buf_sampleRate = sampleRate args,
                                        buf_sources = scheduled st\<rparr>)\<rparr>)))"

section \<open>Notions used to state the properties\<close>

subsection \<open>The compact response\<close>

text \<open>
  The elements of the array under a key of the response, and the presence of the fields
  the response schema requires of them.
\<close>

definition compact_array :: "jsval \<Rightarrow> string \<Rightarrow> jsval list" where
  "compact_array rawData k = (case get_prop rawData k of JArr xs \<Rightarrow> xs | _ \<Rightarrow> [])"

definition is_array :: "jsval \<Rightarrow> bool" where
  "is_array v = (case v of JArr xs \<Rightarrow> True | _ \<Rightarrow> False)"

definition has_fields :: "string list \<Rightarrow> jsval \<Rightarrow> bool" where
  "has_fields ks v =
     (case v of JObj kvs \<Rightarrow> list_all (\<lambda>k. map_of kvs k \<noteq> None) ks | _ \<Rightarrow> False)"

definition required_present :: "jsval \<Rightarrow> bool" where
  "required_present rawData =
     (is_array (get_prop rawData ''subs'') \<and> is_array (get_prop rawData ''nts'')
      \<and> is_array (get_prop rawData ''cards'')
      \<and> list_all (has_fields [''i'', ''s'', ''e'', ''en'', ''vi''])
           (compact_array rawData ''subs'')
      \<and> list_all (has_fields [''ts'', ''ti'', ''co'']) (compact_array rawData ''nts'')
      \<and> list_all (has_fields [''id'', ''t'', ''d'', ''c'']) (compact_array rawData ''cards''))"

text \<open>
  An element of the response and the record it becomes: each field of the record is the
  value the element holds under the short key. The identifier of a flashcard is the
  \<open>id\<close> of the element when that is truthy, and otherwise one of the first \<open>n\<close> random
  numbers drawn.
\<close>

definition field_is :: "jsval \<Rightarrow> string \<Rightarrow> jsval \<Rightarrow> bool" where
  "field_is v k x = (case v of JObj kvs \<Rightarrow> map_of kvs k = Some x | _ \<Rightarrow> False)"

definition is_subtitle_of :: "jsval \<Rightarrow> (jsval, jsval) Subtitle \<Rightarrow> bool" where
  "is_subtitle_of v r =
     (field_is v ''i'' (id' r) \<and> field_is v ''s'' (startTime r) \<and> field_is v ''e'' (endTime r)
      \<and> field_is v ''en'' (textOriginal r) \<and> field_is v ''vi'' (textVietnamese r))"

definition is_note_of :: "jsval \<Rightarrow> jsval Note \<Rightarrow> bool" where
  "is_note_of v r =
     (field_is v ''ts'' (timestamp r) \<and> field_is v ''ti'' (title r)
      \<and> field_is v ''co'' (content r))"

definition is_card_of :: "(nat \<Rightarrow> string) \<Rightarrow> nat \<Rightarrow> jsval \<Rightarrow> (jsval, jsval) Flashcard \<Rightarrow> bool" where
  "is_card_of rnd n v r =
     (field_is v ''t'' (card_term r) \<and> field_is v ''d'' (card_definition r)
      \<and> field_is v ''c'' (card_context r)
      \<and> (if truthy (get_prop v ''id'') then field_is v ''id'' (card_id r)
         else card_id r \<in> (\<lambda>k. JStr (rnd k)) ` {..<n}))"

subsection \<open>The errors of the orchestrator\<close>

definition known_errors :: "js_error list" where
  "known_errors =
     [Error ''API Quota Exceeded. Please try again later.'',
      Error ''Server overloaded. Try again shortly.'',
      Error ''Content blocked by safety filters.'',
      Error ''File too long (Context Exceeded).'',
      Error ''Invalid API Key.'']"

subsection \<open>The poll loop\<close>

text \<open>
  A status request that resolves with a state other than \<open>ACTIVE\<close> and \<open>FAILED\<close>; the
  kinds of calls counted; and an attempt that the loop passes without being aborted.
\<close>

fun not_ready :: "string option settled \<Rightarrow> bool" where
  "not_ready (Resolved state) = (state \<noteq> Some ''ACTIVE'' \<and> state \<noteq> Some ''FAILED'')"
| "not_ready (Rejected e) = False"

fun is_poll :: "call \<Rightarrow> bool" where
  "is_poll (files_get n) = True"
| "is_poll c = False"

fun is_timer :: "call \<Rightarrow> bool" where
  "is_timer (setTimeout d) = True"
| "is_timer c = False"

definition quiet :: "world \<Rightarrow> signal \<Rightarrow> nat \<Rightarrow> bool" where
  "quiet w sig i =
     ((sig = None \<or> (\<not> abort_first (poll_answer w i) \<and> \<not> delay_abort w i))
      \<and> not_ready (settles (poll_answer w i)))"

subsection \<open>The export\<close>

text \<open>
  The text lines of a block, the timestamp as a block gives it, and the sources the
  loop starts and the warnings it gives for one line.
\<close>

definition srt_lines :: "srt_type \<Rightarrow> ('i, string) Subtitle \<Rightarrow> string" where
  "srt_lines type sub =
     (case type of
        bilingual \<Rightarrow> textOriginal sub @ nl @ textVietnamese sub @ nl @ nl
      | original \<Rightarrow> textOriginal sub @ nl @ nl
      | vietnamese \<Rightarrow> textVietnamese sub @ nl @ nl)"

definition srt_stamp :: "string \<Rightarrow> string" where
  "srt_stamp t = (if CHR '','' \<in> set t then t else t @ '',000'')"

definition line_sources :: "('n, 'b) dub_world \<Rightarrow> nat \<Rightarrow> ('i, string) Subtitle \<Rightarrow> (('n::{zero,times,numeral}) \<times> 'b) list" where
  "line_sources w k sub =
     (case getTTSAudio w k (textVietnamese sub) ''Kore'' of
        Inl e \<Rightarrow> []
      | Inr buffer \<Rightarrow>
          (case start_error w (parseTime (Number w) (startTime sub)) of
             Some e \<Rightarrow> []
           | None \<Rightarrow> [(parseTime (Number w) (startTime sub), buffer)]))"

definition line_warned :: "('n::{zero,times,numeral}, 'b) dub_world \<Rightarrow> nat \<Rightarrow> ('i, string) Subtitle \<Rightarrow> 'i list" where
  "line_warned w k sub =
     (case getTTSAudio w k (textVietnamese sub) ''Kore'' of
        Inl e \<Rightarrow> [id' sub]
      | Inr buffer \<Rightarrow>
          (case start_error w (parseTime (Number w) (startTime sub)) of
             Some e \<Rightarrow> [id' sub]
           | None \<Rightarrow> []))"

section \<open>Example inputs\<close>

subsection \<open>Numbers with NaN\<close>

text \<open>
  A number type for the examples: the integers and \<open>NaN\<close>, which every operation
  propagates. \<open>Number_digits\<close> reads a string of decimal digits (the empty string is 0)
  and gives \<open>NaN\<close> as soon as it meets another character. On the strings of the examples,
  which consist of digits or hold a comma, that is the platform's conversion.
\<close>

datatype jsnum = NaN | Fin int

instantiation jsnum :: "{zero, times, numeral}"
begin

definition zero_jsnum :: jsnum where
  "zero_jsnum = Fin 0"

definition one_jsnum :: jsnum where
  "one_jsnum = Fin 1"

fun plus_jsnum :: "jsnum \<Rightarrow> jsnum \<Rightarrow> jsnum" where
  "plus_jsnum (Fin a) (Fin b) = Fin (a + b)"
| "plus_jsnum x y = NaN"

fun times_jsnum :: "jsnum \<Rightarrow> jsnum \<Rightarrow> jsnum" where
  "times_jsnum (Fin a) (Fin b) = Fin (a * b)"
| "times_jsnum x y = NaN"

instance
proof
  fix a b c :: jsnum
  show "a + b + c = a + (b + c)"
    by (cases a; cases b; cases c) simp_all
qed

end

definition digit_value :: "char \<Rightarrow> int option" where
  "digit_value c =
     (let n = (of_char c :: nat) in if 48 \<le> n \<and> n \<le> 57 then Some (int n - 48) else None)"

fun digits_value :: "int \<Rightarrow> string \<Rightarrow> jsnum" where
  "digits_value acc [] = Fin acc"
| "digits_value acc (c # cs) =
     (case digit_value c of None \<Rightarrow> NaN | Some d \<Rightarrow> digits_value (acc * 10 + d) cs)"

definition Number_digits :: "string \<Rightarrow> jsnum" where
  "Number_digits s = digits_value 0 s"

subsection \<open>A dubbing platform\<close>

text \<open>
  The speech request fails for the second line and answers the others with audio,
  which stands for itself as a buffer. The Web Audio interface refuses a context length
  that is not a positive number (\<open>NaN\<close> converts to the length 0) and a start offset
  that is negative or not a number.
\<close>

definition dub_platform :: "(jsnum, string) dub_world" where
  "dub_platform =
     \<lparr>Number = Number_digits,
      tts_key = Some ''key'',
      tts_answer = (\<lambda>k text' voiceName.
                      if k = 1 then Rejected (Error ''429 Too Many Requests'')
                      else Resolved (Some text')),
      decode_pcm = (\<lambda>data. Inr data),
      offline_ctx_error = (\<lambda>len. case len of
                              Fin n \<Rightarrow> if 0 < n then None
                                       else Some (JsError ''NotSupportedError'' None)
                            | NaN \<Rightarrow> Some (JsError ''NotSupportedError'' None)),
      start_error = (\<lambda>t. case t of
                        Fin n \<Rightarrow> if 0 \<le> n then None else Some (JsError ''RangeError'' None)
                      | NaN \<Rightarrow> Some (JsError ''TypeError'' None)),
      rendering_error = None\<rparr>"

definition line1 :: "(nat, string) Subtitle" where
  "line1 = \<lparr>id' = 1, startTime = ''00:00:01'', endTime = ''00:00:03'',
            textOriginal = ''Hello'', textVietnamese = ''Xin chao''\<rparr>"

definition line2 :: "(nat, string) Subtitle" where
  "line2 = \<lparr>id' = 2, startTime = ''00:00:04'', endTime = ''00:00:06'',
            textOriginal = ''Thank you'', textVietnamese = ''Cam on''\<rparr>"

definition line3 :: "(nat, string) Subtitle" where
  "line3 = \<lparr>id' = 3, startTime = ''00:00:07'', endTime = ''00:00:09'',
            textOriginal = ''Goodbye'', textVietnamese = ''Tam biet''\<rparr>"

definition line1_ms :: "(nat, string) Subtitle" where
  "line1_ms = line1\<lparr>startTime := ''00:00:01,500''\<rparr>"

definition line_bare :: "(nat, string) Subtitle" where
  "line_bare = line1\<lparr>startTime := ''90''\<rparr>"

definition line_ok :: "(nat, string) Subtitle" where
  "line_ok = \<lparr>id' = 1, startTime = ''00:00:01'', endTime = ''00:00:02,500'',
              textOriginal = ''OK'', textVietnamese = ''OK''\<rparr>"

definition video :: file_info where
  "video = \<lparr>file_name = ''lesson.mp4'', file_type = ''video/mp4'', file_size = 1000\<rparr>"

subsection \<open>Responses and a polling service\<close>

definition card_empty_id :: jsval where
  "card_empty_id =
     JObj [(''subs'', JArr [JObj [(''i'', JNum 1), (''s'', JStr ''00:00:01''),
                                  (''e'', JStr ''00:00:04''), (''en'', JStr ''Hello''),
                                  (''vi'', JStr ''Xin chao'')]]),
           (''nts'', JArr [JObj [(''ts'', JStr ''00:00:01''), (''ti'', JStr ''Greeting''),
                                 (''co'', JStr ''A greeting'')]]),
           (''cards'', JArr [JObj [(''id'', JStr []), (''t'', JStr ''hello''),
                                   (''d'', JStr ''a greeting''), (''c'', JStr ''Hello'')]])]"

definition card_with_id :: jsval where
  "card_with_id =
     JObj [(''subs'', JArr [JObj [(''i'', JNum 1), (''s'', JStr ''00:00:01''),
                                  (''e'', JStr ''00:00:04''), (''en'', JStr ''Hello''),
                                  (''vi'', JStr ''Xin chao'')]]),
           (''nts'', JArr [JObj [(''ts'', JStr ''00:00:01''), (''ti'', JStr ''Greeting''),
                                 (''co'', JStr ''A greeting'')]]),
           (''cards'', JArr [JObj [(''id'', JStr ''c1''), (''t'', JStr ''hello''),
                                   (''d'', JStr ''a greeting''), (''c'', JStr ''Hello'')]])]"

definition rnd_a :: "nat \<Rightarrow> string" where
  "rnd_a k = ''0.25''"

definition rnd_b :: "nat \<Rightarrow> string" where
  "rnd_b k = ''0.75''"

definition engine_error :: "string \<Rightarrow> js_error" where
  "engine_error k = JsError ''TypeError'' (Some (''Cannot read properties ('' @ k @ '')''))"

text \<open>
  A service whose file stays in state \<open>PROCESSING\<close>, with an abort during the delay
  of the third attempt for a caller that passed a signal.
\<close>

definition polling_world :: world where
  "polling_world =
     \<lparr>api_key = Some ''key'', read_abort_first = False, file_reader = reader_error,
      upload_answer =
        Pending False (Resolved \<lparr>up_uri = Some ''files/abc'', up_name = Some ''abc''\<rparr>),
      poll_answer = (\<lambda>i. Pending False (Resolved (Some ''PROCESSING''))),
      delay_abort = (\<lambda>i. i = 2),
      generate_answer = Pending False (Resolved None),
      JSON_parse = (\<lambda>s. Inl (JsError ''SyntaxError'' (Some ''Unexpected end of JSON input''))),
      Math_random = rnd_a,
      TypeError = engine_error\<rparr>"

section \<open>Properties of the expansion\<close>

lemma has_fields_not_nullish: "has_fields ks v \<Longrightarrow> \<not> nullish v"
  by (cases v) (auto simp: has_fields_def)

lemma has_field_is: "has_fields ks v \<Longrightarrow> k \<in> set ks \<Longrightarrow> field_is v k (get_prop v k)"
  by (cases v) (auto simp: has_fields_def field_is_def list_all_iff)

lemma map_elems_ok:
  "list_all (\<lambda>v. \<not> nullish v) xs \<Longrightarrow> map_elems te k f xs = Inr (map f xs)"
  by (induction xs) auto

lemma map_elems_Inr: "map_elems te k f xs = Inr ys \<Longrightarrow> ys = map f xs"
  by (induction xs arbitrary: ys) (auto split: if_splits sum.splits)

lemma map_cards_Inr: "map_cards te rnd k cs = Inr ys \<Longrightarrow> length ys = length cs"
  by (induction cs arbitrary: k ys) (auto simp: Let_def split: if_splits sum.splits)

lemma array_elems_Inr: "array_elems te v = Inr xs \<Longrightarrow> v = JArr xs"
  by (cases v) auto

lemma is_array_elems:
  "is_array v \<Longrightarrow> array_elems te v = Inr (case v of JArr xs \<Rightarrow> xs | _ \<Rightarrow> [])"
  by (cases v) (auto simp: is_array_def)

text \<open>
  The flashcards of a list without \<open>null\<close> elements: one card for each element, in
  order, with the identifier drawn when the element has no truthy one.
\<close>

lemma map_cards_shape:
  "list_all (\<lambda>v. \<not> nullish v) cs \<Longrightarrow>
   \<exists>ys. map_cards te rnd k cs = Inr ys \<and> length ys = length cs
     \<and> (\<forall>i<length cs. card_term (ys ! i) = get_prop (cs ! i) ''t''
          \<and> card_definition (ys ! i) = get_prop (cs ! i) ''d''
          \<and> card_context (ys ! i) = get_prop (cs ! i) ''c''
          \<and> (if truthy (get_prop (cs ! i) ''id'')
              then card_id (ys ! i) = get_prop (cs ! i) ''id''
              else card_id (ys ! i) \<in> (\<lambda>m. JStr (rnd m)) ` {k..<k + length cs}))"
proof (induction cs arbitrary: k)
  case Nil
  then show ?case by simp
next
  case (Cons c cs)
  let ?k' = "if \<not> truthy (get_prop c ''id'') then k + 1 else k"
  from Cons.prems have nn: "\<not> nullish c" and rest: "list_all (\<lambda>v. \<not> nullish v) cs"
    by simp_all
  from Cons.IH[OF rest, of ?k'] obtain ys where
    ys: "map_cards te rnd ?k' cs = Inr ys" "length ys = length cs"
    and el: "\<forall>i<length cs. card_term (ys ! i) = get_prop (cs ! i) ''t''
          \<and> card_definition (ys ! i) = get_prop (cs ! i) ''d''
          \<and> card_context (ys ! i) = get_prop (cs ! i) ''c''
          \<and> (if truthy (get_prop (cs ! i) ''id'')
              then card_id (ys ! i) = get_prop (cs ! i) ''id''
              else card_id (ys ! i) \<in> (\<lambda>m. JStr (rnd m)) ` {?k'..<?k' + length cs})"
    by blast
  let ?card = "\<lparr>card_id = (if \<not> truthy (get_prop c ''id'') then JStr (rnd k)
                            else get_prop c ''id''),
                card_term = get_prop c ''t'', card_definition = get_prop c ''d'',
                card_context = get_prop c ''c''\<rparr>"
  have eq: "map_cards te rnd k (c # cs) = Inr (?card # ys)"
    using nn ys(1) by (simp add: Let_def)
  have sub: "{?k'..<?k' + length cs} \<subseteq> {k..<k + length (c # cs)}" by auto
  have H: "\<forall>i<length (c # cs). card_term ((?card # ys) ! i) = get_prop ((c # cs) ! i) ''t''
          \<and> card_definition ((?card # ys) ! i) = get_prop ((c # cs) ! i) ''d''
          \<and> card_context ((?card # ys) ! i) = get_prop ((c # cs) ! i) ''c''
          \<and> (if truthy (get_prop ((c # cs) ! i) ''id'')
              then card_id ((?card # ys) ! i) = get_prop ((c # cs) ! i) ''id''
              else card_id ((?card # ys) ! i)
                     \<in> (\<lambda>m. JStr (rnd m)) ` {k..<k + length (c # cs)})"
  proof (intro allI impI)
    fix i assume i: "i < length (c # cs)"
    show "card_term ((?card # ys) ! i) = get_prop ((c # cs) ! i) ''t''
          \<and> card_definition ((?card # ys) ! i) = get_prop ((c # cs) ! i) ''d''
          \<and> card_context ((?card # ys) ! i) = get_prop ((c # cs) ! i) ''c''
          \<and> (if truthy (get_prop ((c # cs) ! i) ''id'')
              then card_id ((?card # ys) ! i) = get_prop ((c # cs) ! i) ''id''
              else card_id ((?card # ys) ! i)
                     \<in> (\<lambda>m. JStr (rnd m)) ` {k..<k + length (c # cs)})"
    proof (cases i)
      case 0
      then show ?thesis by auto
    next
      case (Suc j)
      with i have j: "j < length cs" by simp
      from el j have "card_term (ys ! j) = get_prop (cs ! j) ''t''
          \<and> card_definition (ys ! j) = get_prop (cs ! j) ''d''
          \<and> card_context (ys ! j) = get_prop (cs ! j) ''c''
          \<and> (if truthy (get_prop (cs ! j) ''id'')
              then card_id (ys ! j) = get_prop (cs ! j) ''id''
              else card_id (ys ! j) \<in> (\<lambda>m. JStr (rnd m)) ` {?k'..<?k' + length cs})"
        by blast
      with sub Suc show ?thesis by (auto split: if_splits)
    qed
  qed
  have len: "length (?card # ys) = length (c # cs)" using ys(2) by simp
  show ?case by (rule exI[of _ "?card # ys"]) (use eq len H in blast)
qed

lemma map_cards_det:
  "list_all (\<lambda>c. truthy (get_prop c ''id'')) cs
   \<Longrightarrow> map_cards te rnd' k' cs = map_cards te rnd k cs"
proof (induction cs arbitrary: k k')
  case Nil
  then show ?case by simp
next
  case (Cons c cs)
  then have t: "truthy (get_prop c ''id'')"
    and rest: "list_all (\<lambda>c. truthy (get_prop c ''id'')) cs"
    by simp_all
  have "map_cards te rnd' k' cs = map_cards te rnd k cs" by (rule Cons.IH[OF rest])
  with t show ?case by (simp add: Let_def)
qed

lemma list_all2_map_right: "list_all (\<lambda>x. R x (f x)) xs \<Longrightarrow> list_all2 R xs (map f xs)"
  by (induction xs) auto

lemma subs_match:
  "list_all (has_fields [''i'', ''s'', ''e'', ''en'', ''vi'']) xs
   \<Longrightarrow> list_all2 is_subtitle_of xs (map to_subtitle xs)"
  by (rule list_all2_map_right)
     (auto simp: list_all_iff is_subtitle_of_def to_subtitle_def intro: has_field_is)

lemma notes_match:
  "list_all (has_fields [''ts'', ''ti'', ''co'']) xs
   \<Longrightarrow> list_all2 is_note_of xs (map to_note xs)"
  by (rule list_all2_map_right)
     (auto simp: list_all_iff is_note_of_def to_note_def intro: has_field_is)

lemma cards_match:
  assumes "list_all (has_fields [''id'', ''t'', ''d'', ''c'']) cs"
  shows "\<exists>ys. map_cards te rnd 0 cs = Inr ys \<and> list_all2 (is_card_of rnd (length cs)) cs ys"
proof -
  from assms have nn: "list_all (\<lambda>v. \<not> nullish v) cs"
    by (auto simp: list_all_iff dest: has_fields_not_nullish)
  from map_cards_shape[OF nn, of te rnd 0] obtain ys where
    ys: "map_cards te rnd 0 cs = Inr ys" "length ys = length cs"
    and el: "\<forall>i<length cs. card_term (ys ! i) = get_prop (cs ! i) ''t''
          \<and> card_definition (ys ! i) = get_prop (cs ! i) ''d''
          \<and> card_context (ys ! i) = get_prop (cs ! i) ''c''
          \<and> (if truthy (get_prop (cs ! i) ''id'')
              then card_id (ys ! i) = get_prop (cs ! i) ''id''
              else card_id (ys ! i) \<in> (\<lambda>m. JStr (rnd m)) ` {0..<0 + length cs})"
    by blast
  have "list_all2 (is_card_of rnd (length cs)) cs ys"
  proof (rule list_all2_all_nthI)
    show "length cs = length ys" using ys(2) by simp
  next
    fix i assume i: "i < length cs"
    with assms have hf: "has_fields [''id'', ''t'', ''d'', ''c''] (cs ! i)"
      by (simp add: list_all_length)
    have f: "field_is (cs ! i) ''t'' (get_prop (cs ! i) ''t'')"
      "field_is (cs ! i) ''d'' (get_prop (cs ! i) ''d'')"
      "field_is (cs ! i) ''c'' (get_prop (cs ! i) ''c'')"
      "field_is (cs ! i) ''id'' (get_prop (cs ! i) ''id'')"
      using hf by (auto intro: has_field_is)
    from el i have e: "card_term (ys ! i) = get_prop (cs ! i) ''t''
          \<and> card_definition (ys ! i) = get_prop (cs ! i) ''d''
          \<and> card_context (ys ! i) = get_prop (cs ! i) ''c''
          \<and> (if truthy (get_prop (cs ! i) ''id'')
              then card_id (ys ! i) = get_prop (cs ! i) ''id''
              else card_id (ys ! i) \<in> (\<lambda>m. JStr (rnd m)) ` {0..<0 + length cs})"
      by blast
    have "{0..<0 + length cs} = {..<length cs}" by auto
    with e f show "is_card_of rnd (length cs) (cs ! i) (ys ! i)"
      by (auto simp: is_card_of_def split: if_splits)
  qed
  with ys(1) show ?thesis by blast
qed

lemma required_not_nullish: "required_present rawData \<Longrightarrow> \<not> nullish rawData"
  by (cases rawData) (auto simp: required_present_def is_array_def)

lemma expand_Inr:
  assumes "expand te rnd rawData = Inr pd"
  shows "length (subtitles pd) = length (compact_array rawData ''subs'')
       \<and> length (notes' pd) = length (compact_array rawData ''nts'')
       \<and> length (flashcards pd) = length (compact_array rawData ''cards'')"
  using assms
  by (auto simp: expand_def compact_array_def split: if_splits sum.splits
           dest!: array_elems_Inr map_elems_Inr map_cards_Inr)

text \<open>
  Claim C1, as the code has it. When the response holds the three arrays and every
  element holds the fields its schema requires, the expansion succeeds and yields, in the
  order of the response and one for one, a subtitle for each element of \<open>subs\<close>, a note
  for each element of \<open>nts\<close> and a flashcard for each element of \<open>cards\<close>, each field being
  the value under the corresponding short key. The identifier of a flashcard is the \<open>id\<close>
  of its element when that is truthy (a non-empty string) and a random number otherwise,
  also when the \<open>id\<close> is present and empty; the result does not depend on the random
  numbers when every \<open>id\<close> is truthy.
\<close>

theorem expand_required_present:
  assumes "required_present rawData"
  shows "(case expand te rnd rawData of
            Inl e \<Rightarrow> False
          | Inr pd \<Rightarrow>
              list_all2 is_subtitle_of (compact_array rawData ''subs'') (subtitles pd)
              \<and> list_all2 is_note_of (compact_array rawData ''nts'') (notes' pd)
              \<and> list_all2 (is_card_of rnd (length (compact_array rawData ''cards'')))
                   (compact_array rawData ''cards'') (flashcards pd))
         \<and> (list_all (\<lambda>c. truthy (get_prop c ''id'')) (compact_array rawData ''cards'')
              \<longrightarrow> expand te rnd' rawData = expand te rnd rawData)"
proof -
  let ?ss = "compact_array rawData ''subs''"
  let ?ns = "compact_array rawData ''nts''"
  let ?cs = "compact_array rawData ''cards''"
  from assms have nn: "\<not> nullish rawData" by (rule required_not_nullish)
  from assms have a1: "array_elems te (get_prop rawData ''subs'') = Inr ?ss"
    and a2: "array_elems te (get_prop rawData ''nts'') = Inr ?ns"
    and a3: "array_elems te (get_prop rawData ''cards'') = Inr ?cs"
    by (simp_all add: required_present_def is_array_elems compact_array_def)
  from assms have f1: "list_all (has_fields [''i'', ''s'', ''e'', ''en'', ''vi'']) ?ss"
    and f2: "list_all (has_fields [''ts'', ''ti'', ''co'']) ?ns"
    and f3: "list_all (has_fields [''id'', ''t'', ''d'', ''c'']) ?cs"
    by (simp_all add: required_present_def)
  have m1: "map_elems te ''i'' to_subtitle ?ss = Inr (map to_subtitle ?ss)"
    using f1 by (intro map_elems_ok) (auto simp: list_all_iff dest: has_fields_not_nullish)
  have m2: "map_elems te ''ts'' to_note ?ns = Inr (map to_note ?ns)"
    using f2 by (intro map_elems_ok) (auto simp: list_all_iff dest: has_fields_not_nullish)
  have ex: "expand te r rawData =
      (case map_cards te r 0 ?cs of
         Inl e \<Rightarrow> Inl e
       | Inr cards \<Rightarrow>
           Inr \<lparr>subtitles = map to_subtitle ?ss, notes' = map to_note ?ns,
                flashcards = cards\<rparr>)" for r
    using nn by (simp add: expand_def a1 a2 a3 m1 m2)
  from cards_match[OF f3, of te rnd] obtain ys where
    ys: "map_cards te rnd 0 ?cs = Inr ys" "list_all2 (is_card_of rnd (length ?cs)) ?cs ys"
    by blast
  have first: "(case expand te rnd rawData of
            Inl e \<Rightarrow> False
          | Inr pd \<Rightarrow>
              list_all2 is_subtitle_of ?ss (subtitles pd)
              \<and> list_all2 is_note_of ?ns (notes' pd)
              \<and> list_all2 (is_card_of rnd (length ?cs)) ?cs (flashcards pd))"
    by (simp add: ex ys subs_match[OF f1] notes_match[OF f2])
  have second: "list_all (\<lambda>c. truthy (get_prop c ''id'')) ?cs
              \<longrightarrow> expand te rnd' rawData = expand te rnd rawData"
    by (auto simp: ex map_cards_det[of ?cs te rnd' 0 rnd 0])
  from first second show ?thesis by blast
qed

text \<open>
  The theorem at a response whose card has an identifier: the hypotheses hold there, and
  the expansion is the same for two random sources.
\<close>

theorem expand_required_present_witness:
  "required_present card_with_id
   \<and> list_all (\<lambda>c. truthy (get_prop c ''id'')) (compact_array card_with_id ''cards'')
   \<and> (case expand engine_error rnd_a card_with_id of
         Inl e \<Rightarrow> False
       | Inr pd \<Rightarrow>
           list_all2 is_subtitle_of (compact_array card_with_id ''subs'') (subtitles pd)
           \<and> list_all2 is_note_of (compact_array card_with_id ''nts'') (notes' pd)
           \<and> list_all2 (is_card_of rnd_a (length (compact_array card_with_id ''cards'')))
                (compact_array card_with_id ''cards'') (flashcards pd))
   \<and> expand engine_error rnd_b card_with_id = expand engine_error rnd_a card_with_id"
proof -
  have h: "required_present card_with_id" by code_simp
  have t: "list_all (\<lambda>c. truthy (get_prop c ''id'')) (compact_array card_with_id ''cards'')"
    by code_simp
  from expand_required_present[OF h, where te = engine_error and rnd = rnd_a and rnd' = rnd_b]
    h t show ?thesis
    by blast
qed

text \<open>
  Claim C1 as stated fails: in this response every required field is present, the \<open>id\<close>
  of the card being the empty string, and its expansion differs with the random numbers
  drawn.
\<close>

theorem expand_not_deterministic:
  "required_present card_empty_id
   \<and> expand engine_error rnd_a card_empty_id \<noteq> expand engine_error rnd_b card_empty_id"
  by code_simp

section \<open>Properties of the orchestrator\<close>

lemma runWithCancellation_Inr:
  "runWithCancellation p sig = Inr v \<Longrightarrow> settles p = Resolved v"
  by (cases sig; cases "settles p") (auto split: if_splits)

lemma generate_step_Inr:
  assumes "fst (generate_step w opts cb sig mediaPart calls) = Inr pd"
  shows "\<exists>response rawData. settles (generate_answer w) = Resolved (Some response)
           \<and> JSON_parse w response = Inr rawData
           \<and> expand (TypeError w) (Math_random w) rawData = Inr pd"
proof -
  from assms obtain rt where r: "runWithCancellation (generate_answer w) sig = Inr rt"
    by (auto simp: generate_step_def Let_def split: sum.splits)
  with assms have nf: "\<not> falsy rt"
    by (auto simp: generate_step_def Let_def split: sum.splits if_splits)
  then obtain response where rt: "rt = Some response" by (cases rt) auto
  from assms r nf rt obtain rawData where "JSON_parse w response = Inr rawData"
    "expand (TypeError w) (Math_random w) rawData = Inr pd"
    by (auto simp: generate_step_def Let_def split: sum.splits if_splits)
  with runWithCancellation_Inr[OF r] rt show ?thesis by blast
qed

lemma process_try_Inr:
  assumes "fst (process_try w f opts cb sig) = Inr pd"
  shows "\<exists>mediaPart calls. fst (generate_step w opts cb sig mediaPart calls) = Inr pd"
  using assms
  by (auto simp: process_try_def Let_def split: if_splits sum.splits)

lemma rethrow_cases: "rethrow e = e \<or> rethrow e \<in> set known_errors"
  by (simp add: rethrow_def known_errors_def Let_def)

text \<open>
  Claim C2. A call of \<open>processMediaWithGemini\<close> either returns a \<open>ProcessedData\<close> or
  throws. What it returns is the expansion of the one response of the generation
  request, with a subtitle, a note and a flashcard for every element of the three arrays
  of that response. What it throws is the cancellation error, one of the five fixed
  messages (quota exceeded, server overloaded, safety block, context exceeded, invalid
  key), or the error its \<open>try\<close> block threw, unchanged.
\<close>

theorem all_or_nothing:
  "case fst (processMediaWithGemini w f opts cb sig) of
     Inr pd \<Rightarrow>
       (\<exists>response rawData.
           settles (generate_answer w) = Resolved (Some response)
         \<and> JSON_parse w response = Inr rawData
         \<and> expand (TypeError w) (Math_random w) rawData = Inr pd
         \<and> length (subtitles pd) = length (compact_array rawData ''subs'')
         \<and> length (notes' pd) = length (compact_array rawData ''nts'')
         \<and> length (flashcards pd) = length (compact_array rawData ''cards''))
   | Inl e \<Rightarrow>
       message e = Some ''Processing cancelled by user.''
     \<or> e \<in> set known_errors
     \<or> fst (process_try w f opts cb sig) = Inl e"
proof (cases "fst (process_try w f opts cb sig)")
  case (Inl e)
  then have "fst (processMediaWithGemini w f opts cb sig) = Inl (rethrow e)"
    by (cases "process_try w f opts cb sig") (simp add: processMediaWithGemini_def)
  with Inl rethrow_cases[of e] show ?thesis by auto
next
  case (Inr pd)
  then have p: "fst (processMediaWithGemini w f opts cb sig) = Inr pd"
    by (cases "process_try w f opts cb sig") (simp add: processMediaWithGemini_def)
  from process_try_Inr[OF Inr] obtain mediaPart calls where
    "fst (generate_step w opts cb sig mediaPart calls) = Inr pd" by blast
  from generate_step_Inr[OF this] obtain response rawData where
    g: "settles (generate_answer w) = Resolved (Some response)"
    "JSON_parse w response = Inr rawData"
    "expand (TypeError w) (Math_random w) rawData = Inr pd" by blast
  with expand_Inr[OF g(3)] p show ?thesis by auto
qed

text \<open>
  Claim C5. With a signal that is already aborted when the call starts, the call
  throws the cancellation error and makes no call at all: no status report, no file
  read, no upload, no status poll and no generation request. An operation wrapped by
  \<open>runWithCancellation\<close> under such a signal is rejected with the same error.
\<close>

theorem aborted_before_start:
  "processMediaWithGemini w f opts cb (Some True)
     = (Inl (Error ''Processing cancelled by user.''), [])
   \<and> runWithCancellation p (Some True) = Inl (Error ''Processing cancelled by user.'')"
  by (simp add: processMediaWithGemini_def process_try_def rethrow_def cancelled_def Error_def)

section \<open>Properties of the poll loop\<close>

text \<open>An attempt the loop passes adds one status request and one timer.\<close>

lemma waitLoop_step:
  assumes "i < maxAttempts" "sig \<noteq> Some True" "quiet w sig i"
  shows "\<exists>cs. waitLoop w fn cb sig i calls = waitLoop w fn cb sig (Suc i) (calls @ cs)
           \<and> filter is_poll cs = [files_get fn] \<and> filter is_timer cs = [setTimeout delayMs]"
proof -
  from assms(3) obtain state where st: "settles (poll_answer w i) = Resolved state"
    "state \<noteq> Some ''ACTIVE''" "state \<noteq> Some ''FAILED''"
    by (cases "settles (poll_answer w i)") (auto simp: quiet_def)
  from assms(2,3) have run: "runWithCancellation (poll_answer w i) sig = Inr state"
    using st(1) by (cases sig) (auto simp: quiet_def)
  from assms(2,3) have nd: "\<not> (sig \<noteq> None \<and> delay_abort w i)"
    by (auto simp: quiet_def)
  show ?thesis
    apply (subst waitLoop.simps)
    using assms(1,2) run st(2,3) nd
    by (auto simp: Let_def)
qed

lemma waitLoop_quiet:
  assumes "sig \<noteq> Some True" "\<forall>m\<in>{i..<k}. quiet w sig m" "i \<le> k" "k \<le> maxAttempts"
  shows "\<exists>cs. waitLoop w fn cb sig i calls = waitLoop w fn cb sig k (calls @ cs)
           \<and> filter is_poll cs = replicate (k - i) (files_get fn)
           \<and> filter is_timer cs = replicate (k - i) (setTimeout delayMs)"
  using assms(2-4)
proof (induction k)
  case 0
  then show ?case by (intro exI[of _ "[]"]) simp
next
  case (Suc k)
  show ?case
  proof (cases "i = Suc k")
    case True
    then show ?thesis by (intro exI[of _ "[]"]) simp
  next
    case False
    with Suc.prems have ik: "i \<le> k" and km: "k < maxAttempts" and q: "quiet w sig k"
      and qs: "\<forall>m\<in>{i..<k}. quiet w sig m" by auto
    from Suc.IH[OF qs ik] km obtain cs where
      cs: "waitLoop w fn cb sig i calls = waitLoop w fn cb sig k (calls @ cs)"
      "filter is_poll cs = replicate (k - i) (files_get fn)"
      "filter is_timer cs = replicate (k - i) (setTimeout delayMs)" by auto
    from waitLoop_step[OF km assms(1) q, of fn cb "calls @ cs"] obtain ds where
      ds: "waitLoop w fn cb sig k (calls @ cs) = waitLoop w fn cb sig (Suc k) ((calls @ cs) @ ds)"
      "filter is_poll ds = [files_get fn]" "filter is_timer ds = [setTimeout delayMs]"
      by blast
    have r: "Suc k - i = Suc (k - i)" using ik by simp
    have "waitLoop w fn cb sig i calls = waitLoop w fn cb sig (Suc k) (calls @ (cs @ ds))"
      using cs(1) ds(1) by simp
    moreover have "filter is_poll (cs @ ds) = replicate (Suc k - i) (files_get fn)"
      using cs(2) ds(2) r by (simp add: replicate_append_same)
    moreover have "filter is_timer (cs @ ds) = replicate (Suc k - i) (setTimeout delayMs)"
      using cs(3) ds(3) r by (simp add: replicate_append_same)
    ultimately show ?thesis by blast
  qed
qed

text \<open>
  Claim C4. When no abort fires (no signal was passed, or the signal is not aborted
  at the start and does not fire during any request or delay) and every status request
  resolves with a state other than \<open>ACTIVE\<close> and \<open>FAILED\<close>, \<open>waitForFileActive\<close> makes
  exactly 120 status requests, sets a timer of 5000 ms after each of them, and then
  throws the error \<open>File upload timed out.\<close>
\<close>

theorem poll_times_out:
  assumes "sig = None \<or> (sig = Some False
             \<and> (\<forall>i\<in>{0..<maxAttempts}. \<not> abort_first (poll_answer w i) \<and> \<not> delay_abort w i))"
    and "\<forall>i\<in>{0..<maxAttempts}. not_ready (settles (poll_answer w i))"
  shows "poll_result (waitForFileActive w fileName cb sig) = Inl (Error ''File upload timed out.'')
       \<and> poll_index (waitForFileActive w fileName cb sig) = 120
       \<and> filter is_poll (poll_calls (waitForFileActive w fileName cb sig))
           = replicate 120 (files_get fileName)
       \<and> filter is_timer (poll_calls (waitForFileActive w fileName cb sig))
           = replicate 120 (setTimeout 5000)"
proof -
  from assms have sg: "sig \<noteq> Some True" and q: "\<forall>m\<in>{0..<maxAttempts}. quiet w sig m"
    by (auto simp: quiet_def)
  from waitLoop_quiet[OF sg q, of fileName cb "[]"] obtain cs where
    cs: "waitLoop w fileName cb sig 0 [] = waitLoop w fileName cb sig maxAttempts cs"
    "filter is_poll cs = replicate maxAttempts (files_get fileName)"
    "filter is_timer cs = replicate maxAttempts (setTimeout delayMs)" by auto
  have "waitLoop w fileName cb sig maxAttempts cs
      = \<lparr>poll_result = Inl (Error ''File upload timed out.''), poll_index = maxAttempts,
         poll_calls = cs\<rparr>"
    by (subst waitLoop.simps) simp
  with cs show ?thesis by (simp add: waitForFileActive_def maxAttempts_def delayMs_def)
qed

text \<open>
  The theorem at a service whose file stays in state \<open>PROCESSING\<close>, for a caller that
  passed no signal.
\<close>

theorem poll_times_out_witness:
  "not_ready (settles (poll_answer polling_world 0))
   \<and> not_ready (settles (poll_answer polling_world 119))
   \<and> poll_result (waitForFileActive polling_world ''abc'' True None)
       = Inl (Error ''File upload timed out.'')
   \<and> length (filter is_poll (poll_calls (waitForFileActive polling_world ''abc'' True None)))
       = 120"
proof -
  have h1: "None = None \<or> (None = Some False
             \<and> (\<forall>i\<in>{0..<maxAttempts}. \<not> abort_first (poll_answer polling_world i)
                   \<and> \<not> delay_abort polling_world i))"
    by simp
  have h2: "\<forall>i\<in>{0..<maxAttempts}. not_ready (settles (poll_answer polling_world i))"
    by (simp add: polling_world_def)
  from poll_times_out[OF h1 h2, of "''abc''" True] h2 show ?thesis
    by (simp add: maxAttempts_def)
qed

text \<open>
  Claim C6. Let the signal fire while the loop is running: the attempts before
  attempt \<open>k\<close> pass without abort, and in attempt \<open>k\<close> the abort fires during the status
  request, or the request resolves with a state that keeps the loop going and the abort
  fires during the delay. Then the loop ends in attempt \<open>k\<close>, below its bound, after
  \<open>k + 1\<close> status requests, with the cancellation error and not the timeout error.
\<close>

theorem poll_cancelled:
  assumes "k < maxAttempts"
    and "\<forall>i\<in>{0..<k}. quiet w (Some False) i"
    and "abort_first (poll_answer w k)
         \<or> (not_ready (settles (poll_answer w k)) \<and> delay_abort w k)"
  shows "poll_result (waitForFileActive w fileName cb (Some False))
           = Inl (Error ''Processing cancelled by user.'')
       \<and> poll_result (waitForFileActive w fileName cb (Some False))
           \<noteq> Inl (Error ''File upload timed out.'')
       \<and> poll_index (waitForFileActive w fileName cb (Some False)) = k
       \<and> poll_index (waitForFileActive w fileName cb (Some False)) < maxAttempts
       \<and> filter is_poll (poll_calls (waitForFileActive w fileName cb (Some False)))
           = replicate (Suc k) (files_get fileName)"
proof -
  have sg: "Some False \<noteq> Some True" by simp
  from assms(1) have kle: "k \<le> maxAttempts" by simp
  from waitLoop_quiet[OF sg assms(2) _ kle, of fileName cb "[]"] obtain cs where
    cs: "waitLoop w fileName cb (Some False) 0 [] = waitLoop w fileName cb (Some False) k cs"
    "filter is_poll cs = replicate k (files_get fileName)" by auto
  have "\<exists>ds. waitLoop w fileName cb (Some False) k cs
      = \<lparr>poll_result = Inl cancelled, poll_index = k, poll_calls = cs @ ds\<rparr>
      \<and> filter is_poll ds = [files_get fileName]"
  proof (cases "abort_first (poll_answer w k)")
    case True
    then show ?thesis using assms(1) by (subst waitLoop.simps) simp
  next
    case False
    with assms(3) have nr: "not_ready (settles (poll_answer w k))" and da: "delay_abort w k"
      by auto
    from nr obtain state where st: "settles (poll_answer w k) = Resolved state"
      "state \<noteq> Some ''ACTIVE''" "state \<noteq> Some ''FAILED''"
      by (cases "settles (poll_answer w k)") auto
    show ?thesis using assms(1) False st da by (subst waitLoop.simps) (simp add: Let_def)
  qed
  then obtain ds where ds: "waitLoop w fileName cb (Some False) k cs
      = \<lparr>poll_result = Inl cancelled, poll_index = k, poll_calls = cs @ ds\<rparr>"
      "filter is_poll ds = [files_get fileName]" by blast
  have ne: "cancelled \<noteq> Error ''File upload timed out.''"
    by (simp add: cancelled_def Error_def)
  show ?thesis using cs ds ne assms(1)
    by (simp add: waitForFileActive_def replicate_append_same cancelled_def)
qed

text \<open>
  The theorem at the same service, for a caller whose signal fires during the delay
  of the third attempt.
\<close>

theorem poll_cancelled_witness:
  "2 < maxAttempts
   \<and> quiet polling_world (Some False) 0 \<and> quiet polling_world (Some False) 1
   \<and> not_ready (settles (poll_answer polling_world 2)) \<and> delay_abort polling_world 2
   \<and> poll_result (waitForFileActive polling_world ''abc'' True (Some False))
       = Inl (Error ''Processing cancelled by user.'')
   \<and> poll_index (waitForFileActive polling_world ''abc'' True (Some False)) = 2
   \<and> filter is_poll (poll_calls (waitForFileActive polling_world ''abc'' True (Some False)))
       = [files_get ''abc'', files_get ''abc'', files_get ''abc'']"
proof -
  have h1: "2 < maxAttempts" by (simp add: maxAttempts_def)
  have q: "quiet polling_world (Some False) 0 \<and> quiet polling_world (Some False) 1"
    by (simp add: quiet_def polling_world_def)
  have h2: "\<forall>i\<in>{0..<2}. quiet polling_world (Some False) i"
  proof
    fix i :: nat assume "i \<in> {0..<2}"
    then have "i = 0 \<or> i = 1" by auto
    with q show "quiet polling_world (Some False) i" by auto
  qed
  have h3: "not_ready (settles (poll_answer polling_world 2)) \<and> delay_abort polling_world 2"
    by (simp add: polling_world_def)
  then have h3': "abort_first (poll_answer polling_world 2)
         \<or> (not_ready (settles (poll_answer polling_world 2)) \<and> delay_abort polling_world 2)"
    by simp
  have r: "replicate (Suc 2) (files_get ''abc'') = [files_get ''abc'', files_get ''abc'', files_get ''abc'']"
    by (simp add: numeral_2_eq_2)
  from poll_cancelled[OF h1 h2 h3', of "''abc''" True] h1 q h3 r show ?thesis
    by simp
qed

section \<open>Properties of the subtitle export\<close>

lemma foldl_append_concat:
  "foldl (\<lambda>acc x. acc @ f x) a xs = a @ concat (map f xs)"
  by (induction xs arbitrary: a) simp_all

lemma js_includes_char: "js_includes s [c] = (c \<in> set s)"
  unfolding js_includes_def
proof
  assume "sublist [c] s"
  then obtain ps ss where "s = ps @ [c] @ ss" by (auto simp: sublist_def)
  then show "c \<in> set s" by simp
next
  assume "c \<in> set s"
  then obtain ps ss where "s = ps @ c # ss" by (meson split_list)
  then have "s = ps @ [c] @ ss" by simp
  then show "sublist [c] s" unfolding sublist_def by blast
qed

lemma exportSRT_text:
  "download_text (exportSRT type f subs)
     = concat (map (\<lambda>(index, sub). srt_entry type index sub) (enumerate 0 subs))"
  by (simp add: exportSRT_def foldl_append_concat case_prod_beta')

lemma srt_entry_blocks:
  "srt_entry type index sub
     = show_nat (index + 1) @ nl
       @ srt_stamp (startTime sub) @ '' --> '' @ srt_stamp (endTime sub) @ nl
       @ srt_lines type sub"
  by (cases type) (simp_all add: srt_entry_def srt_stamp_def srt_lines_def js_includes_char)

text \<open>
  Claim C7, as the code has it. In mode \<open>original\<close> the exported text is the
  concatenation, in the order of the list, of one block for each subtitle: the 1-based
  index, the line \<open>start --> end\<close> and the original text, followed by a blank line. The
  translated texts are not read: the export is the same whatever they are. (A translated
  text can still occur in the output as a piece of what is written, for instance when
  it equals the original text.)
\<close>

theorem exportSRT_original:
  "download_text (exportSRT original f subs)
     = concat (map (\<lambda>(index, sub).
                  show_nat (index + 1) @ nl
                  @ srt_stamp (startTime sub) @ '' --> '' @ srt_stamp (endTime sub) @ nl
                  @ textOriginal sub @ nl @ nl)
               (enumerate 0 subs))
   \<and> download_text (exportSRT original f (map (\<lambda>sub. sub\<lparr>textVietnamese := g sub\<rparr>) subs))
     = download_text (exportSRT original f subs)"
proof -
  have e: "srt_entry original index sub
      = show_nat (index + 1) @ nl
        @ srt_stamp (startTime sub) @ '' --> '' @ srt_stamp (endTime sub) @ nl
        @ textOriginal sub @ nl @ nl" for index and sub :: "('a, string) Subtitle"
    by (simp add: srt_entry_blocks srt_lines_def)
  have u: "srt_entry original index (sub\<lparr>textVietnamese := x\<rparr>) = srt_entry original index sub"
    for index x and sub :: "('a, string) Subtitle"
    by (simp add: e)
  have m: "enumerate n (map h xs) = map (\<lambda>(i, x). (i, h x)) (enumerate n xs)"
    for n and h :: "('a, string) Subtitle \<Rightarrow> ('a, string) Subtitle"
      and xs :: "('a, string) Subtitle list"
    by (induction xs arbitrary: n) simp_all
  show ?thesis
    by (simp add: exportSRT_text e m comp_def case_prod_beta')
qed

text \<open>
  Claim C7 as stated fails: for this subtitle, whose translated text equals its
  original text, the translated text occurs in the output of mode \<open>original\<close>.
\<close>

theorem exportSRT_original_shows_translation:
  "js_includes (download_text (exportSRT original video [line_ok])) (textVietnamese line_ok)"
  by code_simp

text \<open>
  Claim C8. In every mode, the block of a subtitle gives each of its two timestamps
  with \<open>,000\<close> appended when the timestamp holds no comma, and unchanged when it holds
  one.
\<close>

theorem exportSRT_timestamps:
  "download_text (exportSRT type f subs)
     = concat (map (\<lambda>(index, sub).
                  show_nat (index + 1) @ nl
                  @ (if CHR '','' \<in> set (startTime sub) then startTime sub
                     else startTime sub @ '',000'')
                  @ '' --> ''
                  @ (if CHR '','' \<in> set (endTime sub) then endTime sub
                     else endTime sub @ '',000'')
                  @ nl
                  @ srt_lines type sub)
               (enumerate 0 subs))"
  by (simp add: exportSRT_text srt_entry_blocks srt_stamp_def)

section \<open>Properties of the timestamp parser and of the dubbed audio export\<close>

lemma split_on_nonempty: "split_on c s \<noteq> []"
  by (induction s) (auto split: list.splits)

lemma length_split_on: "length (split_on c s) = Suc (count_list s c)"
  by (induction s) (auto split: list.splits simp: split_on_nonempty)

lemma split_on_no_sep: "c \<notin> set s \<Longrightarrow> split_on c s = [s]"
  by (induction s) auto

lemma split_on_append: "c \<notin> set a \<Longrightarrow> split_on c (a @ c # b) = a # split_on c b"
  by (induction a) auto

lemma parseTime_other:
  "count_list t CHR '':'' \<noteq> 1 \<Longrightarrow> count_list t CHR '':'' \<noteq> 2 \<Longrightarrow> parseTime N t = 0"
  by (simp add: parseTime_def length_split_on Let_def)

lemma dub_line_scheduled:
  "scheduled (dub_line w len k sub st) = scheduled st @ line_sources w k sub"
  by (simp add: dub_line_def line_sources_def Let_def split: sum.splits option.splits)

lemma dub_line_count:
  "processedCount (dub_line w len k sub st) = Suc (processedCount st)"
  by (simp add: dub_line_def Let_def split: sum.splits option.splits)

lemma dub_line_reports:
  "reports (dub_line w len k sub st) = reports st @ [percent (Suc (processedCount st), len)]"
  by (simp add: dub_line_def Let_def split: sum.splits option.splits)

lemma dub_loop_scheduled:
  "scheduled (dub_loop w len k subs st)
     = scheduled st @ concat (map (\<lambda>(i, s). line_sources w i s) (enumerate k subs))"
  by (induction subs arbitrary: k st) (simp_all add: dub_line_scheduled)

lemma dub_line_warned:
  "warned (dub_line w len k sub st) = warned st @ line_warned w k sub"
  by (simp add: dub_line_def line_warned_def Let_def split: sum.splits option.splits)

lemma dub_loop_warned:
  "warned (dub_loop w len k subs st)
     = warned st @ concat (map (\<lambda>(i, s). line_warned w i s) (enumerate k subs))"
  by (induction subs arbitrary: k st) (simp_all add: dub_line_warned)

lemma dub_loop_count:
  "processedCount (dub_loop w len k subs st) = processedCount st + length subs"
  by (induction subs arbitrary: k st) (simp_all add: dub_line_count)

lemma dub_loop_reports:
  "reports (dub_loop w len k subs st)
     = reports st
       @ map (\<lambda>c. percent (c, len))
           [Suc (processedCount st) ..< Suc (processedCount st + length subs)]"
proof (induction subs arbitrary: k st)
  case Nil
  then show ?case by simp
next
  case (Cons s subs)
  have "[Suc (processedCount st) ..< Suc (processedCount st + length (s # subs))]
      = Suc (processedCount st)
        # [Suc (Suc (processedCount st)) ..< Suc (Suc (processedCount st) + length subs)]"
    by (subst upt_rec) simp
  then show ?case by (simp add: Cons.IH dub_line_reports dub_line_count)
qed

text \<open>At the last line the quotient is 1 and the progress is 100.\<close>

lemma percent_full: "0 < n \<Longrightarrow> percent (n, n) = 100"
proof -
  assume "0 < n"
  then have "(of_nat n :: rat) / of_nat n = 1" by simp
  moreover have "nat \<lfloor>to_double (to_double 1 * 100) + 1 / 2\<rfloor> = 100" by code_simp
  ultimately show ?thesis by (simp add: percent_def)
qed

lemma enumerate_nth_map: "enumerate 0 xs = map (\<lambda>i. (i, xs ! i)) [0..<length xs]"
  by (rule nth_equalityI) (simp_all add: nth_enumerate_eq)

lemma length_others: "j < n \<Longrightarrow> length [i \<leftarrow> [0..<n]. i \<noteq> j] = n - 1"
proof -
  assume j: "j < n"
  have "[i \<leftarrow> [0..<n]. i = j] = [j]"
    using j by (induction n) (auto simp: less_Suc_eq)
  then have "length [i \<leftarrow> [0..<n]. i = j] = 1" by simp
  moreover have "length [i \<leftarrow> [0..<n]. i = j] + length [i \<leftarrow> [0..<n]. \<not> i = j] = length [0..<n]"
    by (rule sum_length_filter_compl)
  ultimately show ?thesis by simp
qed

lemma length_comprehension:
  "length (concat (map (\<lambda>i. if P i then [g i] else []) xs)) = length (filter P xs)"
  by (induction xs) simp_all

text \<open>
  Claim C10. The parser returns \<open>h * 3600 + m * 60 + s\<close> for a string of exactly
  three colon-separated fields, \<open>m * 60 + s\<close> for one of exactly two, and 0 for a string
  of any other shape, that is, with a number of colons other than one and two (a bare
  number, the empty string, four fields). A click on a note asks the mounted player to
  seek to the parsed time, in both versions of the Dashboard (the older one parses in
  place), and the dubbing loop starts the audio of a line, once it has the audio, at the
  parsed start time, when \<open>start\<close> accepts it. So for a timestamp of another shape the
  player is asked to seek to 0 and the line is started at offset 0.
\<close>

theorem parseTime_shapes:
  "(CHR '':'' \<notin> set h \<and> CHR '':'' \<notin> set m \<and> CHR '':'' \<notin> set s
      \<longrightarrow> parseTime (Number w) (h @ '':'' @ m @ '':'' @ s)
            = Number w h * 3600 + Number w m * 60 + Number w s)
   \<and> (CHR '':'' \<notin> set m \<and> CHR '':'' \<notin> set s
      \<longrightarrow> parseTime (Number w) (m @ '':'' @ s) = Number w m * 60 + Number w s)
   \<and> handleNoteClick (Number w) mounted ts
       = (if mounted then Some (seekTo (parseTime (Number w) ts)) else None)
   \<and> handleNoteClick_inline (Number w) mounted ts
       = (if mounted then Some (seekTo (parseTime (Number w) ts)) else None)
   \<and> (getTTSAudio w k (textVietnamese sub) ''Kore'' = Inr buffer
       \<and> start_error w (parseTime (Number w) (startTime sub)) = None
      \<longrightarrow> scheduled (dub_line w len k sub st)
            = scheduled st @ [(parseTime (Number w) (startTime sub), buffer)])
   \<and> (count_list t CHR '':'' \<noteq> 1 \<and> count_list t CHR '':'' \<noteq> 2
      \<longrightarrow> parseTime (Number w) t = 0
        \<and> handleNoteClick (Number w) True t = Some (seekTo 0)
        \<and> handleNoteClick_inline (Number w) True t = Some (seekTo 0)
        \<and> (startTime sub = t \<and> getTTSAudio w k (textVietnamese sub) ''Kore'' = Inr buffer
             \<and> start_error w 0 = None
            \<longrightarrow> scheduled (dub_line w len k sub st) = scheduled st @ [(0, buffer)]))"
proof (intro conjI impI)
  assume "CHR '':'' \<notin> set h \<and> CHR '':'' \<notin> set m \<and> CHR '':'' \<notin> set s"
  then show "parseTime (Number w) (h @ '':'' @ m @ '':'' @ s)
            = Number w h * 3600 + Number w m * 60 + Number w s"
    by (simp add: parseTime_def split_on_append split_on_no_sep)
next
  assume "CHR '':'' \<notin> set m \<and> CHR '':'' \<notin> set s"
  then show "parseTime (Number w) (m @ '':'' @ s) = Number w m * 60 + Number w s"
    by (simp add: parseTime_def split_on_append split_on_no_sep)
next
  show "handleNoteClick (Number w) mounted ts
       = (if mounted then Some (seekTo (parseTime (Number w) ts)) else None)"
    by (simp add: handleNoteClick_def)
next
  show "handleNoteClick_inline (Number w) mounted ts
       = (if mounted then Some (seekTo (parseTime (Number w) ts)) else None)"
    by (simp add: handleNoteClick_inline_def parseTime_def Let_def)
next
  assume "getTTSAudio w k (textVietnamese sub) ''Kore'' = Inr buffer
       \<and> start_error w (parseTime (Number w) (startTime sub)) = None"
  then show "scheduled (dub_line w len k sub st)
            = scheduled st @ [(parseTime (Number w) (startTime sub), buffer)]"
    by (simp add: dub_line_scheduled line_sources_def)
next
  assume a: "count_list t CHR '':'' \<noteq> 1 \<and> count_list t CHR '':'' \<noteq> 2"
  then show z: "parseTime (Number w) t = 0" by (simp add: parseTime_other)
  then show "handleNoteClick (Number w) True t = Some (seekTo 0)"
    by (simp add: handleNoteClick_def)
  from a show "handleNoteClick_inline (Number w) True t = Some (seekTo 0)"
    by (simp add: handleNoteClick_inline_def length_split_on Let_def)
  assume "startTime sub = t \<and> getTTSAudio w k (textVietnamese sub) ''Kore'' = Inr buffer
             \<and> start_error w 0 = None"
  with z show "scheduled (dub_line w len k sub st) = scheduled st @ [(0, buffer)]"
    by (simp add: dub_line_scheduled line_sources_def)
qed

text \<open>
  The theorem at \<open>01:02:03\<close>, at \<open>02:03\<close> and at the bare number \<open>90\<close>: both versions of
  the note click seek to 3723 for the first, and to 0 for the last.
\<close>

theorem parseTime_shapes_witness:
  "CHR '':'' \<notin> set ''01'' \<and> CHR '':'' \<notin> set ''02'' \<and> CHR '':'' \<notin> set ''03''
   \<and> parseTime (Number dub_platform) ''01:02:03'' = Fin 3723
   \<and> parseTime (Number dub_platform) ''02:03'' = Fin 123
   \<and> handleNoteClick (Number dub_platform) True ''01:02:03'' = Some (seekTo (Fin 3723))
   \<and> handleNoteClick_inline (Number dub_platform) True ''01:02:03'' = Some (seekTo (Fin 3723))
   \<and> count_list ''90'' CHR '':'' = 0
   \<and> parseTime (Number dub_platform) ''90'' = 0
   \<and> handleNoteClick (Number dub_platform) True ''90'' = Some (seekTo 0)
   \<and> handleNoteClick_inline (Number dub_platform) True ''90'' = Some (seekTo 0)
   \<and> getTTSAudio dub_platform 0 (textVietnamese line_bare) ''Kore'' = Inr ''Xin chao''
   \<and> start_error dub_platform 0 = None
   \<and> scheduled (dub_line dub_platform 1 0 line_bare dub_start) = [(0, ''Xin chao'')]"
proof -
  note T = parseTime_shapes[where w = dub_platform and h = "''01''" and m = "''02''"
      and s = "''03''" and t = "''90''" and sub = line_bare and k = 0
      and buffer = "''Xin chao''" and len = 1 and st = dub_start
      and mounted = True and ts = "''01:02:03''"]
  have p: "CHR '':'' \<notin> set ''01'' \<and> CHR '':'' \<notin> set ''02'' \<and> CHR '':'' \<notin> set ''03''"
    by simp
  have c: "count_list ''90'' CHR '':'' = 0" by simp
  have v3: "Number dub_platform ''01'' * 3600 + Number dub_platform ''02'' * 60
              + Number dub_platform ''03'' = Fin 3723"
    by code_simp
  have v2: "Number dub_platform ''02'' * 60 + Number dub_platform ''03'' = Fin 123"
    by code_simp
  have g: "startTime line_bare = ''90''
             \<and> getTTSAudio dub_platform 0 (textVietnamese line_bare) ''Kore'' = Inr ''Xin chao''
             \<and> start_error dub_platform 0 = None"
    by code_simp
  have p2: "CHR '':'' \<notin> set ''02'' \<and> CHR '':'' \<notin> set ''03''"
    by simp
  from c have c': "count_list ''90'' CHR '':'' \<noteq> 1 \<and> count_list ''90'' CHR '':'' \<noteq> 2"
    by simp
  note T1 = T[THEN conjunct1, THEN mp, OF p]
  note T2 = T[THEN conjunct2, THEN conjunct1, THEN mp, OF p2]
  note N1 = T[THEN conjunct2, THEN conjunct2, THEN conjunct1]
  note N2 = T[THEN conjunct2, THEN conjunct2, THEN conjunct2, THEN conjunct1]
  note T3 = T[THEN conjunct2, THEN conjunct2, THEN conjunct2, THEN conjunct2, THEN conjunct2,
              THEN mp, OF c']
  note T4 = T3[THEN conjunct2, THEN conjunct2, THEN conjunct2, THEN mp, OF g]
  from T1 v3 have a3: "parseTime (Number dub_platform) ''01:02:03'' = Fin 3723" by simp
  from T2 v2 have a2: "parseTime (Number dub_platform) ''02:03'' = Fin 123" by simp
  from N1 N2 a3 have n: "handleNoteClick (Number dub_platform) True ''01:02:03''
        = Some (seekTo (Fin 3723))
      \<and> handleNoteClick_inline (Number dub_platform) True ''01:02:03''
        = Some (seekTo (Fin 3723))"
    by simp
  from T3 T4 have a0: "parseTime (Number dub_platform) ''90'' = 0
        \<and> handleNoteClick (Number dub_platform) True ''90'' = Some (seekTo 0)
        \<and> handleNoteClick_inline (Number dub_platform) True ''90'' = Some (seekTo 0)
        \<and> scheduled (dub_line dub_platform 1 0 line_bare dub_start)
            = scheduled (dub_start :: (nat, jsnum, string) dub_state) @ [(0, ''Xin chao'')]"
    by simp
  have d: "scheduled (dub_start :: (nat, jsnum, string) dub_state) = []"
    by (simp add: dub_start_def)
  from p a3 a2 n c a0 g d show ?thesis by simp
qed

text \<open>
  Claim C3, as the code has it. Let the offline context be constructed, and let the
  speech request fail for exactly one line \<open>j\<close> of a list of \<open>N\<close> lines. Then the batch
  is not aborted: the loop goes through all the lines, \<open>processedCount\<close> reaches \<open>N\<close>, a
  report is made after each line and the last is 100, and the export goes on to render,
  ending with an error only if the rendering fails. The sources started are, in the
  order of the list, the audio of each other line at the parsed start time of that line,
  for the lines whose offset \<open>start\<close> accepts: all the other \<open>N - 1\<close> lines when it accepts
  the offset of each. A line whose offset \<open>start\<close> refuses is skipped like the line
  without audio, and the warnings name exactly the skipped lines.
\<close>

theorem dub_one_line_fails:
  assumes "j < length subs"
    and "\<forall>i\<in>{0..<length subs}.
           isl (getTTSAudio w i (textVietnamese (subs ! i)) ''Kore'') = (i = j)"
    and "offline_ctx_error w (24000 * (parseTime (Number w) (endTime (last subs)) + 10)) = None"
  shows "case handleDownloadDubbedAudio w False f subs of
           None \<Rightarrow> False
         | Some run \<Rightarrow>
             processedCount (dub_lines run) = length subs
           \<and> reports (dub_lines run)
               = map (\<lambda>c. percent (c, length subs)) [1..<Suc (length subs)]
           \<and> last (reports (dub_lines run)) = 100
           \<and> map (\<lambda>(t, b). (t, Inr b)) (scheduled (dub_lines run))
               = [(parseTime (Number w) (startTime (subs ! i)),
                   getTTSAudio w i (textVietnamese (subs ! i)) ''Kore'').
                  i \<leftarrow> [0..<length subs], i \<noteq> j,
                  start_error w (parseTime (Number w) (startTime (subs ! i))) = None]
           \<and> (list_all (\<lambda>i. i = j
                            \<or> start_error w (parseTime (Number w) (startTime (subs ! i))) = None)
                 [0..<length subs]
               \<longrightarrow> length (scheduled (dub_lines run)) = length subs - 1)
           \<and> warned (dub_lines run)
               = [id' (subs ! i).
                  i \<leftarrow> [0..<length subs],
                  i = j \<or> start_error w (parseTime (Number w) (startTime (subs ! i))) \<noteq> None]
           \<and> (case dub_result run of
                 Inl e \<Rightarrow> rendering_error w = Some e
               | Inr (name, wav) \<Rightarrow> wav_sources wav = scheduled (dub_lines run))"
proof -
  let ?n = "length subs"
  let ?st = "dub_loop w ?n 0 subs dub_start"
  let ?ok = "\<lambda>i. start_error w (parseTime (Number w) (startTime (subs ! i))) = None"
  from assms(1) have n0: "0 < ?n" by auto
  from assms(3) n0 obtain run where
    run: "handleDownloadDubbedAudio w False f subs = Some run"
    "dub_lines run = ?st"
    "case dub_result run of
       Inl e \<Rightarrow> rendering_error w = Some e
     | Inr (name, wav) \<Rightarrow> wav_sources wav = scheduled (dub_lines run)"
    by (cases "rendering_error w")
       (auto simp: handleDownloadDubbedAudio_def Let_def audioBufferToWav_def)
  have c: "processedCount ?st = ?n"
    by (simp add: dub_loop_count dub_start_def)
  have r: "reports ?st = map (\<lambda>c. percent (c, ?n)) [1..<Suc ?n]"
    by (simp add: dub_loop_reports dub_start_def)
  have u: "[1..<Suc ?n] = [1..<?n] @ [?n]"
    using n0 by (cases subs) simp_all
  have l: "last (reports ?st) = 100"
    unfolding r u using n0 by (simp add: percent_full)
  have each: "map (\<lambda>(t, b). (t, Inr b)) (line_sources w i (subs ! i))
      = (if i \<noteq> j \<and> ?ok i
         then [(parseTime (Number w) (startTime (subs ! i)),
                getTTSAudio w i (textVietnamese (subs ! i)) ''Kore'')]
         else [])" if "i \<in> set [0..<?n]" for i
  proof -
    from that assms(2)
    have "isl (getTTSAudio w i (textVietnamese (subs ! i)) ''Kore'') = (i = j)"
      by simp
    then show ?thesis
      by (cases "getTTSAudio w i (textVietnamese (subs ! i)) ''Kore''")
         (auto simp: line_sources_def split: option.splits)
  qed
  have "map (\<lambda>(t, b). (t, Inr b)) (scheduled ?st)
      = concat (map (\<lambda>i. map (\<lambda>(t, b). (t, Inr b)) (line_sources w i (subs ! i))) [0..<?n])"
    by (simp add: dub_loop_scheduled dub_start_def enumerate_nth_map map_concat comp_def)
  also have "\<dots> = concat (map (\<lambda>i.
         if i \<noteq> j \<and> ?ok i
         then [(parseTime (Number w) (startTime (subs ! i)),
                getTTSAudio w i (textVietnamese (subs ! i)) ''Kore'')]
         else []) [0..<?n])"
    using each by (intro arg_cong[where f = concat] map_cong) auto
  finally have s0: "map (\<lambda>(t, b). (t, Inr b)) (scheduled ?st)
      = concat (map (\<lambda>i.
         if i \<noteq> j \<and> ?ok i
         then [(parseTime (Number w) (startTime (subs ! i)),
                getTTSAudio w i (textVietnamese (subs ! i)) ''Kore'')]
         else []) [0..<?n])" .
  have s: "map (\<lambda>(t, b). (t, Inr b)) (scheduled ?st)
      = [(parseTime (Number w) (startTime (subs ! i)),
          getTTSAudio w i (textVietnamese (subs ! i)) ''Kore'').
         i \<leftarrow> [0..<length subs], i \<noteq> j, ?ok i]"
    unfolding s0 by (intro arg_cong[where f = concat] map_cong) auto
  have len0: "length (scheduled ?st) = length [i \<leftarrow> [0..<?n]. i \<noteq> j \<and> ?ok i]"
    using arg_cong[OF s0, of length] by (simp add: length_comprehension)
  have len: "length (scheduled ?st) = ?n - 1"
    if "list_all (\<lambda>i. i = j \<or> ?ok i) [0..<?n]"
  proof -
    from that have "[i \<leftarrow> [0..<?n]. i \<noteq> j \<and> ?ok i] = [i \<leftarrow> [0..<?n]. i \<noteq> j]"
      by (intro filter_cong) (auto simp: list_all_iff)
    with len0 length_others[OF assms(1)] show ?thesis by simp
  qed
  have weach: "line_warned w i (subs ! i)
      = (if i = j \<or> \<not> ?ok i then [id' (subs ! i)] else [])" if "i \<in> set [0..<?n]" for i
  proof -
    from that assms(2)
    have "isl (getTTSAudio w i (textVietnamese (subs ! i)) ''Kore'') = (i = j)"
      by simp
    then show ?thesis
      by (cases "getTTSAudio w i (textVietnamese (subs ! i)) ''Kore''")
         (auto simp: line_warned_def split: option.splits)
  qed
  have w1: "warned ?st = concat (map (\<lambda>i. line_warned w i (subs ! i)) [0..<?n])"
    by (simp add: dub_loop_warned dub_start_def enumerate_nth_map comp_def)
  have w2: "map (\<lambda>i. line_warned w i (subs ! i)) [0..<?n]
      = map (\<lambda>i. if i = j \<or> \<not> ?ok i then [id' (subs ! i)] else []) [0..<?n]"
    using weach by (intro map_cong) auto
  have wn: "warned ?st
      = [id' (subs ! i). i \<leftarrow> [0..<length subs], i = j \<or> \<not> ?ok i]"
    unfolding w1 w2 by simp
  show ?thesis using run c r l s len wn by simp
qed

text \<open>
  The theorem at three lines with the times \<open>00:00:01\<close>, \<open>00:00:04\<close> and \<open>00:00:07\<close>, the
  speech request failing for the second: the first and the third are started at 1 and 7,
  and the progress reported is 33, 67 and 100.
\<close>

theorem dub_one_line_fails_witness:
  "1 < length [line1, line2, line3]
   \<and> isl (getTTSAudio dub_platform 0 (textVietnamese line1) ''Kore'') = False
   \<and> isl (getTTSAudio dub_platform 1 (textVietnamese line2) ''Kore'') = True
   \<and> isl (getTTSAudio dub_platform 2 (textVietnamese line3) ''Kore'') = False
   \<and> offline_ctx_error dub_platform
        (24000 * (parseTime (Number dub_platform) (endTime (last [line1, line2, line3])) + 10))
      = None
   \<and> (case handleDownloadDubbedAudio dub_platform False video [line1, line2, line3] of
         None \<Rightarrow> False
       | Some run \<Rightarrow>
           processedCount (dub_lines run) = 3
         \<and> reports (dub_lines run) = [33, 67, 100]
         \<and> scheduled (dub_lines run) = [(Fin 1, ''Xin chao''), (Fin 7, ''Tam biet'')]
         \<and> warned (dub_lines run) = [2])"
proof -
  have h1: "1 < length [line1, line2, line3]" by simp
  have h2: "\<forall>i\<in>{0..<length [line1, line2, line3]}.
         isl (getTTSAudio dub_platform i (textVietnamese ([line1, line2, line3] ! i)) ''Kore'')
           = (i = 1)"
    by code_simp
  have h2': "isl (getTTSAudio dub_platform 0 (textVietnamese line1) ''Kore'') = False
   \<and> isl (getTTSAudio dub_platform 1 (textVietnamese line2) ''Kore'') = True
   \<and> isl (getTTSAudio dub_platform 2 (textVietnamese line3) ''Kore'') = False"
    by code_simp
  have h3: "offline_ctx_error dub_platform
        (24000 * (parseTime (Number dub_platform) (endTime (last [line1, line2, line3])) + 10))
      = None"
    by code_simp
  have v: "handleDownloadDubbedAudio dub_platform False video [line1, line2, line3] =
     Some \<lparr>ctx_request = \<lparr>numberOfChannels = 1, ctx_length = Fin 456000,
                          sampleRate = Fin 24000\<rparr>,
           offline_ctx = Some \<lparr>numberOfChannels = 1, ctx_length = Fin 456000,
                               sampleRate = Fin 24000\<rparr>,
           dub_lines = \<lparr>scheduled = [(Fin 1, ''Xin chao''), (Fin 7, ''Tam biet'')],
                        warned = [2], processedCount = 3, reports = [33, 67, 100]\<rparr>,
           dub_result = Inr (''lesson_dubbed_audio.wav'',
              \<lparr>wav_channels = 1, wav_sampleRate = Fin 24000, wav_frames = Fin 456000,
               wav_sources = [(Fin 1, ''Xin chao''), (Fin 7, ''Tam biet'')]\<rparr>)\<rparr>"
    by code_simp
  from dub_one_line_fails[OF h1 h2 h3, of video] h1 h2' h3 show ?thesis
    by (simp add: v)
qed

text \<open>
  Claim C3 as stated fails. In this list of three lines the speech request fails for
  the second line only and the context is constructed, but the first line, whose start
  time \<open>00:00:01,500\<close> parses to \<open>NaN\<close>, is refused by \<open>start\<close> and warned about: one
  source is started, not two.
\<close>

theorem dub_line_dropped:
  "isl (getTTSAudio dub_platform 0 (textVietnamese line1_ms) ''Kore'') = False
   \<and> isl (getTTSAudio dub_platform 1 (textVietnamese line2) ''Kore'') = True
   \<and> isl (getTTSAudio dub_platform 2 (textVietnamese line3) ''Kore'') = False
   \<and> parseTime (Number dub_platform) (startTime line1_ms) = NaN
   \<and> handleDownloadDubbedAudio dub_platform False video [line1_ms, line2, line3] =
       Some \<lparr>ctx_request = \<lparr>numberOfChannels = 1, ctx_length = Fin 456000,
                            sampleRate = Fin 24000\<rparr>,
             offline_ctx = Some \<lparr>numberOfChannels = 1, ctx_length = Fin 456000,
                                 sampleRate = Fin 24000\<rparr>,
             dub_lines = \<lparr>scheduled = [(Fin 7, ''Tam biet'')], warned = [1, 2],
                          processedCount = 3, reports = [33, 67, 100]\<rparr>,
             dub_result = Inr (''lesson_dubbed_audio.wav'',
                \<lparr>wav_channels = 1, wav_sampleRate = Fin 24000, wav_frames = Fin 456000,
                 wav_sources = [(Fin 7, ''Tam biet'')]\<rparr>)\<rparr>"
  by code_simp

text \<open>
  Claim C9, as the code has it. For a non-empty list the export asks for a mono
  offline context at 24000 Hz whose length in frames is 24000 times the sum of the parsed
  end time of the last subtitle and 10. When the platform constructs it, the context
  has that length, which is the parsed end time plus 10 seconds, and the file offered
  when the rendering succeeds is a container of one channel at 24000 Hz holding that
  number of frames. When the platform refuses the length, no context is constructed, no
  line is processed and the export ends with that error, offering no file.
\<close>

theorem dub_context_length:
  assumes "subs \<noteq> []"
  shows "case handleDownloadDubbedAudio w False f subs of
           None \<Rightarrow> False
         | Some run \<Rightarrow>
             ctx_request run =
               \<lparr>numberOfChannels = 1,
                ctx_length = 24000 * (parseTime (Number w) (endTime (last subs)) + 10),
                sampleRate = 24000\<rparr>
           \<and> (case offline_ctx_error w
                      (24000 * (parseTime (Number w) (endTime (last subs)) + 10)) of
                 Some e \<Rightarrow>
                   offline_ctx run = None \<and> dub_result run = Inl e
                 \<and> processedCount (dub_lines run) = 0
               | None \<Rightarrow>
                   offline_ctx run = Some (ctx_request run)
                 \<and> (case dub_result run of
                       Inl e \<Rightarrow> rendering_error w = Some e
                     | Inr (name, wav) \<Rightarrow>
                         rendering_error w = None
                       \<and> wav_channels wav = 1
                       \<and> wav_sampleRate wav = 24000
                       \<and> wav_frames wav
                           = 24000 * (parseTime (Number w) (endTime (last subs)) + 10)))"
  using assms
  by (cases "offline_ctx_error w (24000 * (parseTime (Number w) (endTime (last subs)) + 10))";
      cases "rendering_error w")
     (simp_all add: handleDownloadDubbedAudio_def Let_def audioBufferToWav_def dub_start_def)

text \<open>
  The theorem at three lines, the last ending at \<open>00:00:09\<close>: 19 seconds, 456000 frames.
\<close>

theorem dub_context_length_witness:
  "[line1, line2, line3] \<noteq> []
   \<and> 24000 * (parseTime (Number dub_platform) (endTime (last [line1, line2, line3])) + 10)
       = Fin 456000
   \<and> offline_ctx_error dub_platform (Fin 456000) = None
   \<and> map_option offline_ctx
        (handleDownloadDubbedAudio dub_platform False video [line1, line2, line3])
       = Some (Some \<lparr>numberOfChannels = 1, ctx_length = Fin 456000, sampleRate = Fin 24000\<rparr>)
   \<and> map_option dub_result
        (handleDownloadDubbedAudio dub_platform False video [line1, line2, line3])
       = Some (Inr (''lesson_dubbed_audio.wav'',
            \<lparr>wav_channels = 1, wav_sampleRate = Fin 24000, wav_frames = Fin 456000,
             wav_sources = [(Fin 1, ''Xin chao''), (Fin 7, ''Tam biet'')]\<rparr>))"
proof -
  have h: "[line1, line2, line3] \<noteq> []" by simp
  have n: "24000 * (parseTime (Number dub_platform) (endTime (last [line1, line2, line3])) + 10)
       = Fin 456000"
    by code_simp
  have a: "offline_ctx_error dub_platform (Fin 456000) = None" by code_simp
  have v: "handleDownloadDubbedAudio dub_platform False video [line1, line2, line3] =
     Some \<lparr>ctx_request = \<lparr>numberOfChannels = 1, ctx_length = Fin 456000,
                          sampleRate = Fin 24000\<rparr>,
           offline_ctx = Some \<lparr>numberOfChannels = 1, ctx_length = Fin 456000,
                               sampleRate = Fin 24000\<rparr>,
           dub_lines = \<lparr>scheduled = [(Fin 1, ''Xin chao''), (Fin 7, ''Tam biet'')],
                        warned = [2], processedCount = 3, reports = [33, 67, 100]\<rparr>,
           dub_result = Inr (''lesson_dubbed_audio.wav'',
              \<lparr>wav_channels = 1, wav_sampleRate = Fin 24000, wav_frames = Fin 456000,
               wav_sources = [(Fin 1, ''Xin chao''), (Fin 7, ''Tam biet'')]\<rparr>)\<rparr>"
    by code_simp
  from dub_context_length[OF h, of dub_platform video] h n a show ?thesis
    by (simp add: v)
qed

text \<open>
  Claim C9 as stated fails. The one subtitle of this list ends at \<open>00:00:02,500\<close>,
  which parses to \<open>NaN\<close>: the constructor refuses the length, no context is constructed
  and no file is offered.
\<close>

theorem dub_context_refused:
  "[line_ok] \<noteq> []
   \<and> parseTime (Number dub_platform) (endTime (last [line_ok])) = NaN
   \<and> handleDownloadDubbedAudio dub_platform False video [line_ok] =
       Some \<lparr>ctx_request = \<lparr>numberOfChannels = 1, ctx_length = NaN, sampleRate = Fin 24000\<rparr>,
             offline_ctx = None,
             dub_lines = \<lparr>scheduled = [], warned = [], processedCount = 0, reports = []\<rparr>,
             dub_result = Inl (JsError ''NotSupportedError'' None)\<rparr>"
  by code_simp

end
